theory Spec2Isabelle
  imports Complex_Main "HOL-Library.Word"
begin

section \<open>Data model of the item store (adDataStore)\<close>

text \<open>
  A JavaScript \<open>number\<close> that reaches the store is an array position or a number read from
  JSON and accepted by \<open>z.number()\<close>: a finite double. Finite doubles are rationals and
  \<open>===\<close> on them is equality of the values (\<open>-0 === 0\<close>), so numbers are modelled as
  \<^typ>\<open>rat\<close>.
\<close>

type_synonym number = rat

text \<open>\<open>Sentence\<close> and \<open>Insight\<close> of transcriptSync.types.ts.\<close>

record sentence =
  s_text :: string
  s_start :: number
  s_end :: number

record insight =
  i_insight :: string
  i_explanation :: string

text \<open>
  The union \<open>"pending" | "error" | T | null\<close> of the fields \<open>transcriptSents\<close> and
  \<open>insights\<close>, whose ready value is an array and so never one of the two marker strings.
  The two audio fields are \<open>"pending" | "error" | string | null\<close>: there the ready value is
  itself a string, so they are kept as \<^typ>\<open>string option\<close> (\<open>None\<close> is \<open>null\<close>) with the
  markers \<open>''pending''\<close> and \<open>''error''\<close> compared as strings, as the source does.
\<close>

datatype 'a progressive = Pending | Error | Ready 'a | Null

datatype status = StatusPending | StatusDone

record adData =
  index :: number
  musicAudioSrc :: "string option"
  nonMusicAudioSrc :: "string option"
  transcriptSents :: "sentence list progressive"
  englishTranscriptSents :: "string list option"
  insights :: "insight list progressive"
  location :: "string option"
  status :: status
  theme :: "string option"

record adDataState =
  ads :: "adData list"
  activeIndex :: "number option"

record countryData =
  name :: string
  code :: string

section \<open>Operations of the item store\<close>

definition setAds :: "adData list \<Rightarrow> adDataState \<Rightarrow> adDataState" where
  "setAds newAds st = st\<lparr>ads := newAds\<rparr>"

definition appendAd :: "adData \<Rightarrow> adDataState \<Rightarrow> adDataState" where
  "appendAd ad st = setAds (ads st @ [ad]) st"

text \<open>\<open>ads.find(ad => ad.index === i)\<close>: the first item with that index, if any.\<close>

definition findAd :: "adData list \<Rightarrow> number \<Rightarrow> adData option" where
  "findAd as i = find (\<lambda>ad. index ad = i) as"

definition getAdLoadingState :: "adDataState \<Rightarrow> number \<Rightarrow> bool" where
  "getAdLoadingState st i =
     (case findAd (ads st) i of
        None \<Rightarrow> False
      | Some ad \<Rightarrow>
          (let musicLoading = (musicAudioSrc ad = Some ''pending'');
               nonMusicLoading = (nonMusicAudioSrc ad = Some ''pending'');
               musicNull = (musicAudioSrc ad = None);
               nonMusicNull = (nonMusicAudioSrc ad = None)
           in (musicLoading \<and> nonMusicLoading) \<or>
              (musicNull \<and> nonMusicLoading) \<or>
              (nonMusicNull \<and> musicLoading)))"

definition getAdErrorState :: "adDataState \<Rightarrow> number \<Rightarrow> bool" where
  "getAdErrorState st i =
     (case findAd (ads st) i of
        None \<Rightarrow> False
      | Some ad \<Rightarrow>
          (let musicError = (musicAudioSrc ad = Some ''error'');
               nonMusicError = (nonMusicAudioSrc ad = Some ''error'');
               musicNull = (musicAudioSrc ad = None);
               nonMusicNull = (nonMusicAudioSrc ad = None)
           in (musicError \<and> nonMusicError) \<or>
              (musicNull \<and> nonMusicError) \<or>
              (nonMusicNull \<and> musicError)))"

definition updateAd :: "adData \<Rightarrow> adDataState \<Rightarrow> adDataState" where
  "updateAd updatedAd st =
     st\<lparr>ads := map (\<lambda>ad. if index ad = index updatedAd then updatedAd else ad) (ads st)\<rparr>"

definition failAd :: "adData \<Rightarrow> adData" where
  "failAd ad = ad\<lparr>
     musicAudioSrc := (if musicAudioSrc ad = Some ''pending'' then Some ''error'' else musicAudioSrc ad),
     nonMusicAudioSrc := (if nonMusicAudioSrc ad = Some ''pending'' then Some ''error'' else nonMusicAudioSrc ad),
     transcriptSents := (if transcriptSents ad = Pending then Error else transcriptSents ad),
     insights := (if insights ad = Pending then Error else insights ad),
     status := (if status ad = StatusPending then StatusDone else status ad)\<rparr>"

definition failAllPendingRequests :: "adDataState \<Rightarrow> adDataState" where
  "failAllPendingRequests st = st\<lparr>ads := map failAd (ads st)\<rparr>"

definition nullifyAd :: "adData \<Rightarrow> adData" where
  "nullifyAd ad = ad\<lparr>
     musicAudioSrc := (if musicAudioSrc ad = Some ''pending'' then None else musicAudioSrc ad),
     nonMusicAudioSrc := (if nonMusicAudioSrc ad = Some ''pending'' then None else nonMusicAudioSrc ad),
     transcriptSents := (if transcriptSents ad = Pending then Null else transcriptSents ad),
     insights := (if insights ad = Pending then Null else insights ad),
     status := (if status ad = StatusPending then StatusDone else status ad)\<rparr>"

definition nullifyAllPendingRequests :: "adDataState \<Rightarrow> adDataState" where
  "nullifyAllPendingRequests st = st\<lparr>ads := map nullifyAd (ads st)\<rparr>"

text \<open>
  \<open>getRandomVibrantColor\<close> of helpers/utils.ts. \<open>r\<close> is the double \<open>Math.random()\<close> returned,
  a number in \<open>[0, 1)\<close>. The product \<open>Math.random() * vibrantColors.length\<close> is a product
  of doubles, which the host rounds to a double; \<open>multiply\<close> stands for that multiplication.
  JavaScript's read past the end of the array gives \<open>undefined\<close>, which is \<open>None\<close> here.
\<close>

definition vibrantColors :: "string list" where
  "vibrantColors = [''#FF5733'', ''#FF6F61'', ''#FFC300'', ''#FF33A8'', ''#00C1D4'', ''#28B463'',
                    ''#9B59B6'', ''#E74C3C'', ''#3498DB'', ''#F39C12'', ''#1ABC9C'', ''#8E44AD'']"

definition getRandomVibrantColor :: "(rat \<Rightarrow> rat \<Rightarrow> rat) \<Rightarrow> rat \<Rightarrow> string option" where
  "getRandomVibrantColor multiply r =
     (let i = \<lfloor>multiply r (of_nat (length vibrantColors))\<rfloor>
      in if 0 \<le> i \<and> nat i < length vibrantColors then Some (vibrantColors ! nat i) else None)"

text \<open>The item \<open>populateAds\<close> appends for the country at position \<open>i\<close>; \<open>r\<close> is the
  random draw made for it.\<close>

definition newAd :: "(rat \<Rightarrow> rat \<Rightarrow> rat) \<Rightarrow> rat \<Rightarrow> nat \<Rightarrow> countryData \<Rightarrow> adData" where
  "newAd multiply r i country = \<lparr>
     index = of_nat i,
     musicAudioSrc = Some ''pending'',
     nonMusicAudioSrc = Some ''pending'',
     transcriptSents = Pending,
     englishTranscriptSents = None,
     insights = Pending,
     location = Some (name country),
     status = StatusPending,
     theme = getRandomVibrantColor multiply r\<rparr>"

text \<open>\<open>data.forEach((country, index) => get().appendAd({...}))\<close>; \<open>rnd i\<close> is the value
  \<open>Math.random()\<close> returns during the \<open>i\<close>-th iteration.\<close>

definition populateAds ::
  "(rat \<Rightarrow> rat \<Rightarrow> rat) \<Rightarrow> (nat \<Rightarrow> rat) \<Rightarrow> countryData list \<Rightarrow> adDataState \<Rightarrow> adDataState" where
  "populateAds multiply rnd data st =
     fold (\<lambda>(i, country) s. appendAd (newAd multiply (rnd i) i country) s) (enumerate 0 data) st"

section \<open>Message schemas (ws.schemas)\<close>

text \<open>
  The value \<open>JSON.parse\<close> returns. An object is the list of its own properties; \<open>JSON.parse\<close>
  keeps one value per key, so lookup by the first match reads the property.
\<close>

datatype json =
    JNull
  | JBool bool
  | JNum number
  | JStr string
  | JArr "json list"
  | JObj "(string \<times> json) list"

text \<open>Exceptions thrown on the receiving path: by \<open>JSON.parse\<close>, by a zod \<open>parse\<close>, and by
  \<open>DataView\<close> / \<open>Uint8Array\<close> on an out-of-bounds access.\<close>

datatype exn = SyntaxError | ZodError | RangeError

text \<open>\<open>obj[key]\<close> as zod reads it: \<open>None\<close> is \<open>undefined\<close> (no such property).\<close>

definition getProp :: "(string \<times> json) list \<Rightarrow> string \<Rightarrow> json option" where
  "getProp kvs k = map_of kvs k"

definition zString :: "json \<Rightarrow> string option" where
  "zString j = (case j of JStr s \<Rightarrow> Some s | _ \<Rightarrow> None)"

definition zNumber :: "json \<Rightarrow> number option" where
  "zNumber j = (case j of JNum n \<Rightarrow> Some n | _ \<Rightarrow> None)"

text \<open>\<open>z.array(item)\<close>: every element must validate.\<close>

definition zArray :: "(json \<Rightarrow> 'a option) \<Rightarrow> json \<Rightarrow> 'a list option" where
  "zArray item j = (case j of JArr xs \<Rightarrow> those (map item xs) | _ \<Rightarrow> None)"

text \<open>\<open>schema.optional()\<close> applied to a property: an absent property validates as absent.
  The outer option is the outcome of validation, the inner one the presence of the value.\<close>

definition zOptional :: "(json \<Rightarrow> 'a option) \<Rightarrow> json option \<Rightarrow> 'a option option" where
  "zOptional schema v =
     (case v of None \<Rightarrow> Some None
      | Some j \<Rightarrow> (case schema j of None \<Rightarrow> None | Some a \<Rightarrow> Some (Some a)))"

text \<open>A property without \<open>.optional()\<close>: an absent property fails validation.\<close>

definition zRequired :: "(json \<Rightarrow> 'a option) \<Rightarrow> json option \<Rightarrow> 'a option" where
  "zRequired schema v = (case v of None \<Rightarrow> None | Some j \<Rightarrow> schema j)"

text \<open>\<open>schema.nullable()\<close>: \<open>null\<close> validates, as the inner \<open>None\<close>.\<close>

definition zNullable :: "(json \<Rightarrow> 'a option) \<Rightarrow> json \<Rightarrow> 'a option option" where
  "zNullable schema j =
     (case j of JNull \<Rightarrow> Some None
      | _ \<Rightarrow> (case schema j of None \<Rightarrow> None | Some a \<Rightarrow> Some (Some a)))"

definition zLiterals :: "string list \<Rightarrow> json \<Rightarrow> string option" where
  "zLiterals lits j = (case j of JStr s \<Rightarrow> (if s \<in> set lits then Some s else None) | _ \<Rightarrow> None)"

definition sentenceAlignment :: "json \<Rightarrow> sentence option" where
  "sentenceAlignment j =
     (case j of
        JObj kvs \<Rightarrow>
          (case (zRequired zString (getProp kvs ''text''),
                 zRequired zNumber (getProp kvs ''start''),
                 zRequired zNumber (getProp kvs ''end'')) of
             (Some t, Some s, Some e) \<Rightarrow> Some \<lparr>s_text = t, s_start = s, s_end = e\<rparr>
           | _ \<Rightarrow> None)
      | _ \<Rightarrow> None)"

definition insightSchema :: "json \<Rightarrow> insight option" where
  "insightSchema j =
     (case j of
        JObj kvs \<Rightarrow>
          (case (zRequired zString (getProp kvs ''insight''),
                 zRequired zString (getProp kvs ''explanation'')) of
             (Some i, Some e) \<Rightarrow> Some \<lparr>i_insight = i, i_explanation = e\<rparr>
           | _ \<Rightarrow> None)
      | _ \<Rightarrow> None)"

definition Step :: "string list" where
  "Step = [''speech'', ''merged'', ''insights'', ''transcript'', ''music'']"

definition messageTypes :: "string list" where
  "messageTypes = [''speech'', ''merged'', ''insight'', ''done'', ''error'', ''fatal_error'',
                   ''complete'', ''received'', ''audio_complete'']"

text \<open>The object \<open>ResponsePayload.parse\<close> returns: the known properties only (\<open>.strip()\<close>).
  For \<open>translations\<close> the outer \<open>None\<close> is an absent property and \<open>Some None\<close> is \<open>null\<close>.\<close>

record responsePayload =
  rp_type :: string
  rp_message :: "string option"
  rp_index :: "number option"
  rp_step :: "string option"
  rp_transcript :: "string option"
  rp_translations :: "string list option option"
  rp_alignments :: "sentence list option"
  rp_insights :: "insight list option"

definition ResponsePayload :: "json \<Rightarrow> responsePayload option" where
  "ResponsePayload j =
     (case j of
        JObj kvs \<Rightarrow>
          (case (zRequired (zLiterals messageTypes) (getProp kvs ''type''),
                 zOptional zString (getProp kvs ''message''),
                 zOptional zNumber (getProp kvs ''index''),
                 zOptional (zLiterals Step) (getProp kvs ''step''),
                 zOptional zString (getProp kvs ''transcript''),
                 zOptional (zNullable (zArray zString)) (getProp kvs ''translations''),
                 zOptional (zArray sentenceAlignment) (getProp kvs ''alignments''),
                 zOptional (zArray insightSchema) (getProp kvs ''insights'')) of
             (Some ty, Some msg, Some idx, Some stp, Some tr, Some trl, Some al, Some ins) \<Rightarrow>
               Some \<lparr>rp_type = ty, rp_message = msg, rp_index = idx, rp_step = stp,
                     rp_transcript = tr, rp_translations = trl, rp_alignments = al,
                     rp_insights = ins\<rparr>
           | _ \<Rightarrow> None)
      | _ \<Rightarrow> None)"

text \<open>The narrower schemas are applied to the object \<open>ResponsePayload.parse\<close> returned; each
  returns the validated properties.\<close>

record insightsResponsePayload =
  ip_index :: number
  ip_insights :: "insight list"

definition InsightsResponsePayload :: "responsePayload \<Rightarrow> insightsResponsePayload option" where
  "InsightsResponsePayload r =
     (case (rp_type r = ''insight'', rp_index r, rp_insights r) of
        (True, Some i, Some ins) \<Rightarrow> Some \<lparr>ip_index = i, ip_insights = ins\<rparr>
      | _ \<Rightarrow> None)"

record speechResponsePayload =
  sp_index :: number
  sp_transcript :: string
  sp_translations :: "string list option"
  sp_alignments :: "sentence list"

definition SpeechResponsePayload :: "responsePayload \<Rightarrow> speechResponsePayload option" where
  "SpeechResponsePayload r =
     (case (rp_type r = ''speech'', rp_index r, rp_transcript r, rp_translations r, rp_alignments r) of
        (True, Some i, Some t, Some trl, Some al) \<Rightarrow>
          Some \<lparr>sp_index = i, sp_transcript = t, sp_translations = trl, sp_alignments = al\<rparr>
      | _ \<Rightarrow> None)"

definition FinishedAdPayload :: "responsePayload \<Rightarrow> number option" where
  "FinishedAdPayload r = (if rp_type r = ''done'' then rp_index r else None)"

definition MergedAdPayload :: "responsePayload \<Rightarrow> number option" where
  "MergedAdPayload r = (if rp_type r = ''merged'' then rp_index r else None)"

record adErrorPayload =
  ep_step :: string
  ep_index :: number
  ep_message :: string

definition AdErrorPayload :: "responsePayload \<Rightarrow> adErrorPayload option" where
  "AdErrorPayload r =
     (case (rp_type r = ''error'', rp_step r, rp_index r, rp_message r) of
        (True, Some s, Some i, Some m) \<Rightarrow>
          (if s \<in> set Step then Some \<lparr>ep_step = s, ep_index = i, ep_message = m\<rparr> else None)
      | _ \<Rightarrow> None)"

section \<open>The connection session (services/ws)\<close>

type_synonym byte = "8 word"

definition handleAdError :: "adData \<Rightarrow> responsePayload \<Rightarrow> exn + adData" where
  "handleAdError targetAd resData =
     (case AdErrorPayload resData of
        None \<Rightarrow> Inl ZodError
      | Some errorData \<Rightarrow>
          Inr (if ep_step errorData = ''merged'' then targetAd\<lparr>musicAudioSrc := Some ''error''\<rparr>
               else if ep_step errorData = ''speech'' then
                 targetAd\<lparr>nonMusicAudioSrc := Some ''error'', transcriptSents := Error\<rparr>
               else if ep_step errorData = ''music'' then targetAd\<lparr>musicAudioSrc := Some ''error''\<rparr>
               else targetAd\<lparr>musicAudioSrc := Some ''error'', nonMusicAudioSrc := Some ''error'',
                             transcriptSents := Error, insights := Error\<rparr>))"

text \<open>\<open>json.event\<close> on the parsed frame.\<close>

definition jsonEvent :: "json \<Rightarrow> json option" where
  "jsonEvent j = (case j of JObj kvs \<Rightarrow> getProp kvs ''event'' | _ \<Rightarrow> None)"

text \<open>\<open>targetAd\<close>: \<open>ads.find\<close> by the frame's index when the frame has one.\<close>

definition locateTarget :: "responsePayload \<Rightarrow> adDataState \<Rightarrow> adData option" where
  "locateTarget resData st =
     (case rp_index resData of None \<Rightarrow> None | Some i \<Rightarrow> findAd (ads st) i)"

text \<open>
  \<open>handleJsonMessage\<close> from the schema check on; the argument is the value of
  \<open>JSON.parse(data.toString())\<close>. \<open>targetAd\<close> is the store's own object and the handler
  assigns to its properties; every assignment comes after the schema check of its branch and
  is followed by \<open>updateAd(targetAd)\<close>, so the branch yields the changed item and the write
  back puts it into the collection. A thrown exception is \<open>Inl\<close> and leaves the store as it
  was.
\<close>

definition handleJsonMessage :: "json \<Rightarrow> adDataState \<Rightarrow> exn + adDataState" where
  "handleJsonMessage j st =
     (case ResponsePayload j of
        None \<Rightarrow> Inl ZodError
      | Some resData \<Rightarrow>
          if jsonEvent j = Some (JStr ''transcription'') then Inr st
          else
            (let targetAd = locateTarget resData st;
                 r = (if rp_type resData = ''insight'' then
                        (case targetAd of
                           None \<Rightarrow> Inr (None, st)
                         | Some ad \<Rightarrow>
                             (case InsightsResponsePayload resData of
                                None \<Rightarrow> Inl ZodError
                              | Some insights_data \<Rightarrow>
                                  Inr (Some (ad\<lparr>insights := Ready (ip_insights insights_data)\<rparr>), st)))
                      else if rp_type resData = ''done'' then
                        (case targetAd of
                           None \<Rightarrow> Inr (None, st)
                         | Some ad \<Rightarrow>
                             (case FinishedAdPayload resData of
                                None \<Rightarrow> Inl ZodError
                              | Some _ \<Rightarrow> Inr (Some (ad\<lparr>status := StatusDone\<rparr>), st)))
                      else if rp_type resData = ''complete'' then
                        Inr (targetAd, nullifyAllPendingRequests st)
                      else if rp_type resData = ''error'' then
                        (case targetAd of
                           None \<Rightarrow> Inr (None, st)
                         | Some ad \<Rightarrow>
                             (case handleAdError ad resData of
                                Inl e \<Rightarrow> Inl e
                              | Inr ad' \<Rightarrow> Inr (Some ad', st)))
                      else Inr (targetAd, st))
             in case r of
                  Inl e \<Rightarrow> Inl e
                | Inr (t, st') \<Rightarrow> Inr (case t of None \<Rightarrow> st' | Some ad \<Rightarrow> updateAd ad st')))"

text \<open>\<open>dataView.getUint32(0, true)\<close>: the first four bytes, least significant first; a
  buffer shorter than four bytes throws.\<close>

definition getUint32 :: "byte list \<Rightarrow> exn + nat" where
  "getUint32 buf =
     (case buf of
        b0 # b1 # b2 # b3 # _ \<Rightarrow>
          Inr (unat b0 + 256 * unat b1 + 65536 * unat b2 + 16777216 * unat b3)
      | _ \<Rightarrow> Inl RangeError)"

text \<open>
  The first half of the \<open>onload\<close> callback of \<open>handleBlobMessage\<close>: length prefix, metadata,
  audio remainder. \<open>new Uint8Array(arrayBuffer, 4, metaLength)\<close> throws when the view would
  reach past the end of the buffer. \<open>JSON_parse\<close> and \<open>decode\<close> stand for the host's
  \<open>JSON.parse\<close> (\<open>None\<close> when it throws) and \<open>new TextDecoder().decode\<close>.
\<close>

definition decodeFrame ::
  "(string \<Rightarrow> json option) \<Rightarrow> (byte list \<Rightarrow> string) \<Rightarrow> byte list \<Rightarrow> exn + (responsePayload \<times> byte list)" where
  "decodeFrame JSON_parse decode arrayBuffer =
     (case getUint32 arrayBuffer of
        Inl e \<Rightarrow> Inl e
      | Inr metaLength \<Rightarrow>
          if 4 + metaLength > length arrayBuffer then Inl RangeError
          else
            (let metaBytes = take metaLength (drop 4 arrayBuffer)
             in case JSON_parse (decode metaBytes) of
                  None \<Rightarrow> Inl SyntaxError
                | Some j \<Rightarrow>
                    (case ResponsePayload j of
                       None \<Rightarrow> Inl ZodError
                     | Some metadata \<Rightarrow> Inr (metadata, drop (4 + metaLength) arrayBuffer))))"

text \<open>\<open>s.split("\n")\<close>: the pieces between the separators; the empty string gives one empty
  piece.\<close>

fun split :: "char \<Rightarrow> string \<Rightarrow> string list" where
  "split c [] = [[]]"
| "split c (x # xs) =
     (if x = c then [] # split c xs
      else (case split c xs of w # ws \<Rightarrow> (x # w) # ws | [] \<Rightarrow> [[x]]))"

definition newline :: char where
  "newline = CHR 0x0A"

text \<open>
  The second half of the callback: the dispatch on \<open>metadata.type\<close>. \<open>audioUrl\<close> is the URL
  that \<open>URL.createObjectURL\<close> has returned for the blob of the audio bytes.
\<close>

definition dispatchBlob :: "responsePayload \<Rightarrow> string \<Rightarrow> adDataState \<Rightarrow> exn + adDataState" where
  "dispatchBlob metadata audioUrl st =
     (let targetAd = locateTarget metadata st;
          r = (if rp_type metadata = ''speech'' then
                 (case targetAd of
                    None \<Rightarrow> Inr None
                  | Some ad \<Rightarrow>
                      (case SpeechResponsePayload metadata of
                         None \<Rightarrow> Inl ZodError
                       | Some speechData \<Rightarrow>
                           (let ad1 = ad\<lparr>nonMusicAudioSrc := Some audioUrl,
                                         transcriptSents := Ready (sp_alignments speechData)\<rparr>
                            in Inr (Some (case sp_translations speechData of
                                            None \<Rightarrow> ad1
                                          | Some _ \<Rightarrow>
                                              ad1\<lparr>englishTranscriptSents :=
                                                     Some (split newline (sp_transcript speechData))\<rparr>)))))
               else if rp_type metadata = ''merged'' then
                 (case targetAd of
                    None \<Rightarrow> Inr None
                  | Some ad \<Rightarrow>
                      (case MergedAdPayload metadata of
                         None \<Rightarrow> Inl ZodError
                       | Some _ \<Rightarrow> Inr (Some (ad\<lparr>musicAudioSrc := Some audioUrl\<rparr>))))
               else Inr targetAd)
      in case r of
           Inl e \<Rightarrow> Inl e
         | Inr None \<Rightarrow> Inr st
         | Inr (Some ad) \<Rightarrow> Inr (updateAd ad st))"

text \<open>The whole \<open>onload\<close> callback on the store.\<close>

definition handleBlobMessage ::
  "(string \<Rightarrow> json option) \<Rightarrow> (byte list \<Rightarrow> string) \<Rightarrow> string \<Rightarrow> byte list \<Rightarrow> adDataState
     \<Rightarrow> exn + adDataState" where
  "handleBlobMessage JSON_parse decode audioUrl arrayBuffer st =
     (case decodeFrame JSON_parse decode arrayBuffer of
        Inl e \<Rightarrow> Inl e
      | Inr (metadata, audioBytes) \<Rightarrow> dispatchBlob metadata audioUrl st)"

text \<open>
  The byte layout of a binary frame in the words of the protocol description: a four-byte
  little-endian unsigned length, the metadata bytes, the audio bytes. It is used to state what
  the decoder does on a well-formed frame; the sender is not part of the client.
\<close>

definition u32le :: "nat \<Rightarrow> byte list" where
  "u32le n = [of_nat (n mod 256), of_nat (n div 256 mod 256),
              of_nat (n div 65536 mod 256), of_nat (n div 16777216 mod 256)]"

definition binaryFrame :: "byte list \<Rightarrow> byte list \<Rightarrow> byte list" where
  "binaryFrame meta audio = u32le (length meta) @ meta @ audio"

text \<open>
  The session that \<open>generateAds\<close> builds: the store it writes to, the closure variable
  \<open>isConnected\<close>, what has been sent, the blobs handed to a \<open>FileReader\<close> whose \<open>onload\<close> has
  not run yet, and the set \<open>createdUrls\<close>. Two fields are not variables of the source:
  \<open>failAllPendingCalls\<close> counts the invocations of \<open>failAllPendingRequests\<close> the session has
  made, and \<open>socketClosed\<close> is the host's side of the socket, which tells whether the
  \<open>WebSocket\<close> has raised its \<open>close\<close> event (or was never constructed).
\<close>

datatype outgoing = SendRequest | SendBuffer "byte list" | SendFinished

datatype wsData = TextData string | BlobData "byte list"

record session =
  store :: adDataState
  isConnected :: bool
  musicBuffers :: "byte list list option"
  sent :: "outgoing list"
  reading :: "byte list list"
  createdUrls :: "string list"
  failAllPendingCalls :: nat
  socketClosed :: bool

definition invokeFailAllPending :: "session \<Rightarrow> session" where
  "invokeFailAllPending s =
     s\<lparr>store := failAllPendingRequests (store s),
       failAllPendingCalls := Suc (failAllPendingCalls s)\<rparr>"

text \<open>\<open>generateAds\<close> up to its \<open>return\<close>; \<open>constructorThrows\<close> tells whether
  \<open>new WebSocket(wsUrl)\<close> throws, which the \<open>catch\<close> answers with
  \<open>failAllPendingRequests()\<close>.\<close>

definition generateAds :: "bool \<Rightarrow> byte list list option \<Rightarrow> adDataState \<Rightarrow> session" where
  "generateAds constructorThrows buffers st =
     (let s = \<lparr>store = st, isConnected = False, musicBuffers = buffers, sent = [],
               reading = [], createdUrls = [], failAllPendingCalls = 0,
               socketClosed = constructorThrows\<rparr>
      in if constructorThrows then invokeFailAllPending s else s)"

definition onOpen :: "session \<Rightarrow> session" where
  "onOpen s =
     s\<lparr>isConnected := True,
       sent := sent s @ [SendRequest]
               @ (case musicBuffers s of None \<Rightarrow> [] | Some bs \<Rightarrow> map SendBuffer bs)
               @ [SendFinished]\<rparr>"

text \<open>\<open>handleMessage\<close>: a string goes to \<open>handleJsonMessage\<close>, and whatever that throws is
  caught and logged; a \<open>Blob\<close> is handed to a \<open>FileReader\<close>.\<close>

definition handleMessage :: "(string \<Rightarrow> json option) \<Rightarrow> wsData \<Rightarrow> session \<Rightarrow> session" where
  "handleMessage JSON_parse d s =
     (case d of
        TextData txt \<Rightarrow>
          (case JSON_parse txt of
             None \<Rightarrow> s
           | Some j \<Rightarrow>
               (case handleJsonMessage j (store s) of
                  Inl e \<Rightarrow> s
                | Inr st' \<Rightarrow> s\<lparr>store := st'\<rparr>))
      | BlobData b \<Rightarrow> s\<lparr>reading := reading s @ [b]\<rparr>)"

text \<open>\<open>reader.onload\<close> for the \<open>k\<close>-th blob being read. The URL is recorded in
  \<open>createdUrls\<close> once the frame has decoded; an exception ends the callback.\<close>

definition onReaderLoad ::
  "(string \<Rightarrow> json option) \<Rightarrow> (byte list \<Rightarrow> string) \<Rightarrow> nat \<Rightarrow> string \<Rightarrow> session \<Rightarrow> session" where
  "onReaderLoad JSON_parse decode k audioUrl s =
     (if k < length (reading s) then
        (let arrayBuffer = reading s ! k;
             s1 = s\<lparr>reading := take k (reading s) @ drop (Suc k) (reading s)\<rparr>
         in case decodeFrame JSON_parse decode arrayBuffer of
              Inl e \<Rightarrow> s1
            | Inr (metadata, audioBytes) \<Rightarrow>
                (let s2 = s1\<lparr>createdUrls := List.insert audioUrl (createdUrls s1)\<rparr>
                 in case dispatchBlob metadata audioUrl (store s2) of
                      Inl e \<Rightarrow> s2
                    | Inr st' \<Rightarrow> s2\<lparr>store := st'\<rparr>))
      else s)"

definition onClose :: "session \<Rightarrow> session" where
  "onClose s = invokeFailAllPending (s\<lparr>isConnected := False\<rparr>)"

definition onError :: "session \<Rightarrow> session" where
  "onError s = invokeFailAllPending (s\<lparr>isConnected := False\<rparr>)"

datatype wsEvent =
    Open
  | Message wsData
  | ReaderLoad nat string
  | Close
  | SocketError

text \<open>
  The host runs the listener registered for an event. The listeners do not ask whether the
  connection is open; it is the \<open>WebSocket\<close> that raises no \<open>message\<close> event once it has
  raised \<open>close\<close>, so a frame that arrives after close reaches no listener. A \<open>FileReader\<close>
  is not part of the socket: its \<open>onload\<close> runs when the read is complete, closed or not.
\<close>

fun deliver ::
  "(string \<Rightarrow> json option) \<Rightarrow> (byte list \<Rightarrow> string) \<Rightarrow> wsEvent \<Rightarrow> session \<Rightarrow> session" where
  "deliver JSON_parse decode Open s = onOpen s"
| "deliver JSON_parse decode (Message d) s =
     (if socketClosed s then s else handleMessage JSON_parse d s)"
| "deliver JSON_parse decode (ReaderLoad k url) s = onReaderLoad JSON_parse decode k url s"
| "deliver JSON_parse decode Close s = onClose (s\<lparr>socketClosed := True\<rparr>)"
| "deliver JSON_parse decode SocketError s = onError s"

text \<open>The events of a session in the order the single-threaded host delivers them.\<close>

definition run ::
  "(string \<Rightarrow> json option) \<Rightarrow> (byte list \<Rightarrow> string) \<Rightarrow> wsEvent list \<Rightarrow> session \<Rightarrow> session" where
  "run JSON_parse decode evs s = fold (deliver JSON_parse decode) evs s"

definition terminal :: "wsEvent \<Rightarrow> bool" where
  "terminal ev = (ev = Close \<or> ev = SocketError)"

section \<open>The notification store (notificationStore)\<close>

text \<open>
  Track numbers, counts and clock readings are non-negative integers, for which a template
  literal prints the decimal digits. Text outside ASCII is kept as its UTF-8 bytes.
\<close>

definition digit :: "nat \<Rightarrow> char" where
  "digit d = ''0123456789'' ! d"

fun showNat :: "nat \<Rightarrow> string" where
  "showNat n = (if n < 10 then [digit n] else showNat (n div 10) @ [digit (n mod 10)])"

declare showNat.simps [simp del]

text \<open>\<open>xs.join(sep)\<close>.\<close>

fun join :: "string \<Rightarrow> string list \<Rightarrow> string" where
  "join sep [] = []"
| "join sep [x] = x"
| "join sep (x # y # ys) = x @ sep @ join sep (y # ys)"

text \<open>\<open>Omit<Notification, 'id' | 'timestamp'>\<close> and \<open>Notification\<close>. The type tags
  (\<open>'loading'\<close>, \<open>'ready'\<close>, \<open>'error'\<close>, \<open>'celebration'\<close>, \<open>'batch'\<close>) are the strings of
  the source.\<close>

record notificationBody =
  n_type :: string
  n_title :: string
  n_message :: string
  n_trackIndex :: "nat option"
  n_duration :: "nat option"

record notification = notificationBody +
  n_id :: string
  n_timestamp :: nat

record batchedUpdate =
  b_type :: string
  trackIndexes :: "nat list"
  b_timestamp :: nat

text \<open>
  The host's timer table: what \<open>setTimeout\<close> has registered and not yet run or cleared. The
  store registers two kinds of callback.
\<close>

datatype callback = CallProcessBatchedUpdates | CallRemoveNotification string

record timeout =
  handle :: nat
  fireAt :: nat
  callback :: callback

text \<open>The store's state, followed by the host's timer table and the handle the next
  \<open>setTimeout\<close> will return. A handle is a positive integer or an object, so \<open>if (batchTimer)\<close>
  asks whether a handle is stored.\<close>

record notificationState =
  notifications :: "notification list"
  activeTrackIndex :: "nat option"
  batchedUpdates :: "batchedUpdate list"
  batchTimer :: "nat option"
  timers :: "timeout list"
  nextHandle :: nat

definition setTimeout :: "callback \<Rightarrow> nat \<Rightarrow> nat \<Rightarrow> notificationState \<Rightarrow> nat \<times> notificationState" where
  "setTimeout cb delay now st =
     (nextHandle st,
      st\<lparr>timers := timers st @ [\<lparr>handle = nextHandle st, fireAt = now + delay, callback = cb\<rparr>],
         nextHandle := Suc (nextHandle st)\<rparr>)"

definition clearTimeout :: "nat \<Rightarrow> notificationState \<Rightarrow> notificationState" where
  "clearTimeout h st = st\<lparr>timers := filter (\<lambda>t. handle t \<noteq> h) (timers st)\<rparr>"

text \<open>\<open>now\<close> is the reading of \<open>Date.now()\<close> during the call and \<open>rnd\<close> the text
  \<open>Math.random().toString(36).substr(2, 9)\<close>. \<open>notification.duration || 4000\<close> replaces a
  missing or zero duration.\<close>

definition addNotification :: "nat \<Rightarrow> string \<Rightarrow> notificationBody \<Rightarrow> notificationState \<Rightarrow> notificationState" where
  "addNotification now rnd body st =
     (let ident = ''notif_'' @ showNat now @ ''_'' @ rnd;
          duration = (case n_duration body of None \<Rightarrow> 4000 | Some d \<Rightarrow> if d = 0 then 4000 else d);
          newNotification = \<lparr>n_type = n_type body, n_title = n_title body,
                             n_message = n_message body, n_trackIndex = n_trackIndex body,
                             n_duration = Some duration, n_id = ident, n_timestamp = now\<rparr>
      in snd (setTimeout (CallRemoveNotification ident) duration now
                (st\<lparr>notifications := notifications st @ [newNotification]\<rparr>)))"

definition removeNotification :: "string \<Rightarrow> notificationState \<Rightarrow> notificationState" where
  "removeNotification ident st =
     st\<lparr>notifications := filter (\<lambda>n. n_id n \<noteq> ident) (notifications st)\<rparr>"

definition setActiveTrack :: "nat option \<Rightarrow> notificationState \<Rightarrow> notificationState" where
  "setActiveTrack i st = st\<lparr>activeTrackIndex := i\<rparr>"

definition createActiveTrackNotification :: "nat \<Rightarrow> string \<Rightarrow> notificationBody" where
  "createActiveTrackNotification trackIndex ty =
     (let baseTrack = ''Track '' @ showNat (trackIndex + 1)
      in if ty = ''loading'' then
           \<lparr>n_type = ''loading'', n_title = ''Cooking your audio ad...'',
            n_message = baseTrack @ '' is being generated'',
            n_trackIndex = Some trackIndex, n_duration = Some 3000\<rparr>
         else if ty = ''ready'' then
           \<lparr>n_type = ''ready'',
            n_title = [CHR 0xF0, CHR 0x9F, CHR 0x94, CHR 0xA5] @ '' Track ready!'',
            n_message = baseTrack @ '' is ready to play'',
            n_trackIndex = Some trackIndex, n_duration = Some 3000\<rparr>
         else if ty = ''error'' then
           \<lparr>n_type = ''error'', n_title = ''Generation failed'',
            n_message = baseTrack @ '' encountered an error'',
            n_trackIndex = Some trackIndex, n_duration = Some 6000\<rparr>
         else
           \<lparr>n_type = ''ready'', n_title = ''Update'', n_message = baseTrack @ '' updated'',
            n_trackIndex = Some trackIndex, n_duration = None\<rparr>)"

definition createErrorNotification :: "nat \<Rightarrow> notificationBody" where
  "createErrorNotification trackIndex =
     \<lparr>n_type = ''error'', n_title = ''Track failed'',
      n_message = ''Track '' @ showNat (trackIndex + 1) @ '' needs attention'',
      n_trackIndex = Some trackIndex, n_duration = Some 8000\<rparr>"

definition createBatchNotification :: "batchedUpdate \<Rightarrow> notificationBody" where
  "createBatchNotification batch =
     (let count = length (trackIndexes batch);
          trackList = join '', '' (map (\<lambda>i. showNat (i + 1)) (trackIndexes batch))
      in if b_type batch = ''ready'' then
           \<lparr>n_type = ''batch'',
            n_title = [CHR 0xF0, CHR 0x9F, CHR 0x8E, CHR 0x89] @ '' '' @ showNat count @ '' track''
                      @ (if count > 1 then ''s'' else []) @ '' ready!'',
            n_message = (if count > 3 then showNat count @ '' more tracks completed''
                         else ''Tracks '' @ trackList @ '' ready to play''),
            n_trackIndex = None, n_duration = Some 4000\<rparr>
         else
           \<lparr>n_type = ''batch'',
            n_title = showNat count @ '' track'' @ (if count > 1 then ''s'' else []) @ '' failed'',
            n_message = ''Tracks '' @ trackList @ '' need attention'',
            n_trackIndex = None, n_duration = Some 6000\<rparr>)"

text \<open>\<open>existingBatch.trackIndexes.push(trackIndex); existingBatch.timestamp = Date.now()\<close>
  on the first batch of the given type: the object is changed where it stands in
  \<open>batchedUpdates\<close>.\<close>

fun pushToBatch :: "string \<Rightarrow> nat \<Rightarrow> nat \<Rightarrow> batchedUpdate list \<Rightarrow> batchedUpdate list" where
  "pushToBatch ty trackIndex now [] = []"
| "pushToBatch ty trackIndex now (b # bs) =
     (if b_type b = ty
      then b\<lparr>trackIndexes := trackIndexes b @ [trackIndex], b_timestamp := now\<rparr> # bs
      else b # pushToBatch ty trackIndex now bs)"

definition addToBatch :: "nat \<Rightarrow> nat \<Rightarrow> string \<Rightarrow> notificationState \<Rightarrow> notificationState" where
  "addToBatch now trackIndex ty st =
     (let st1 = (case find (\<lambda>b. b_type b = ty) (batchedUpdates st) of
                   Some existingBatch \<Rightarrow>
                     st\<lparr>batchedUpdates := pushToBatch ty trackIndex now (batchedUpdates st)\<rparr>
                 | None \<Rightarrow>
                     st\<lparr>batchedUpdates := batchedUpdates st @
                          [\<lparr>b_type = ty, trackIndexes = [trackIndex], b_timestamp = now\<rparr>]\<rparr>);
          st2 = (case batchTimer st of Some h \<Rightarrow> clearTimeout h st1 | None \<Rightarrow> st1);
          (newTimer, st3) = setTimeout CallProcessBatchedUpdates 5000 now st2
      in st3\<lparr>batchTimer := Some newTimer\<rparr>)"

definition handleTrackUpdate :: "nat \<Rightarrow> string \<Rightarrow> nat \<Rightarrow> string \<Rightarrow> notificationState \<Rightarrow> notificationState" where
  "handleTrackUpdate now rnd trackIndex ty st =
     (let isActiveTrack = (activeTrackIndex st = Some trackIndex)
      in if isActiveTrack then
           addNotification now rnd (createActiveTrackNotification trackIndex ty) st
         else if ty = ''error'' then addNotification now rnd (createErrorNotification trackIndex) st
         else if ty = ''ready'' then addToBatch now trackIndex ''ready'' st
         else st)"

text \<open>\<open>rnds k\<close> is the random text drawn for the notification of the \<open>k\<close>-th batch.\<close>

definition processBatchedUpdates :: "nat \<Rightarrow> (nat \<Rightarrow> string) \<Rightarrow> notificationState \<Rightarrow> notificationState" where
  "processBatchedUpdates now rnds st =
     (let st1 = fold (\<lambda>(k, batch) s.
                        if length (trackIndexes batch) > 0
                        then addNotification now (rnds k) (createBatchNotification batch) s
                        else s)
                     (enumerate 0 (batchedUpdates st)) st
      in st1\<lparr>batchedUpdates := [], batchTimer := None\<rparr>)"

definition clearAllNotifications :: "notificationState \<Rightarrow> notificationState" where
  "clearAllNotifications st =
     (let st1 = (case batchTimer st of Some h \<Rightarrow> clearTimeout h st | None \<Rightarrow> st)
      in st1\<lparr>notifications := [], batchedUpdates := [], batchTimer := None\<rparr>)"

text \<open>The host runs the timer with handle \<open>h\<close> at time \<open>now\<close>: nothing happens unless the
  timer is registered and due; a timer that runs leaves the table.\<close>

definition fireTimer :: "nat \<Rightarrow> nat \<Rightarrow> (nat \<Rightarrow> string) \<Rightarrow> notificationState \<Rightarrow> notificationState" where
  "fireTimer h now rnds st =
     (case find (\<lambda>t. handle t = h) (timers st) of
        None \<Rightarrow> st
      | Some t \<Rightarrow>
          if now < fireAt t then st
          else
            (let st1 = st\<lparr>timers := filter (\<lambda>t'. handle t' \<noteq> h) (timers st)\<rparr>
             in case callback t of
                  CallProcessBatchedUpdates \<Rightarrow> processBatchedUpdates now rnds st1
                | CallRemoveNotification ident \<Rightarrow> removeNotification ident st1))"

text \<open>A run of \<open>handleTrackUpdate(trackIndex, 'ready')\<close> calls, each with its clock reading
  and random text, with no timer running in between.\<close>

definition readyEvents :: "(nat \<times> string \<times> nat) list \<Rightarrow> notificationState \<Rightarrow> notificationState" where
  "readyEvents evs st =
     fold (\<lambda>(now, rnd, trackIndex) s. handleTrackUpdate now rnd trackIndex ''ready'' s) evs st"

text \<open>The registered timers that will flush the batches.\<close>

definition flushTimers :: "notificationState \<Rightarrow> timeout list" where
  "flushTimers st = filter (\<lambda>t. callback t = CallProcessBatchedUpdates) (timers st)"

subsection \<open>States of the batching cycle\<close>

text \<open>
  Three conditions on the state of the notification store, used to state what a run of ready
  events does. \<open>wellTimed\<close>: the host hands out each timer handle once. \<open>idle\<close>: no batch is
  pending and no flush is scheduled, as at creation and after every flush. \<open>batching ixs t\<close>:
  one ready batch holds the track indexes \<open>ixs\<close>, last touched at \<open>t\<close>, and exactly one flush is
  scheduled, for \<open>t + 5000\<close>, under the handle stored in \<open>batchTimer\<close>.
\<close>

definition wellTimed :: "notificationState \<Rightarrow> bool" where
  "wellTimed st =
     (distinct (map handle (timers st)) \<and> list_all (\<lambda>t. handle t < nextHandle st) (timers st))"

definition idle :: "notificationState \<Rightarrow> bool" where
  "idle st = (batchedUpdates st = [] \<and> batchTimer st = None \<and> flushTimers st = [])"

definition batching :: "nat list \<Rightarrow> nat \<Rightarrow> notificationState \<Rightarrow> bool" where
  "batching ixs t st =
     (batchedUpdates st = [\<lparr>b_type = ''ready'', trackIndexes = ixs, b_timestamp = t\<rparr>] \<and>
      (case batchTimer st of
         None \<Rightarrow> False
       | Some h \<Rightarrow>
           flushTimers st = [\<lparr>handle = h, fireAt = t + 5000, callback = CallProcessBatchedUpdates\<rparr>]))"

text \<open>The notification a flush of the ready batch \<open>ixs\<close> at time \<open>now\<close> adds.\<close>

definition readyBatchNotification :: "nat list \<Rightarrow> nat \<Rightarrow> string \<Rightarrow> notification" where
  "readyBatchNotification ixs now rnd =
     \<lparr>n_type = ''batch'',
      n_title = [CHR 0xF0, CHR 0x9F, CHR 0x8E, CHR 0x89] @ '' '' @ showNat (length ixs) @ '' track''
                @ (if length ixs > 1 then ''s'' else []) @ '' ready!'',
      n_message = (if length ixs \<le> 3
                   then ''Tracks '' @ join '', '' (map (\<lambda>i. showNat (i + 1)) ixs) @ '' ready to play''
                   else showNat (length ixs) @ '' more tracks completed''),
      n_trackIndex = None, n_duration = Some 4000,
      n_id = ''notif_'' @ showNat now @ ''_'' @ rnd, n_timestamp = now\<rparr>"

section \<open>Example inputs\<close>

text \<open>Concrete stores and frames on which the theorems below are instantiated.\<close>

definition exampleAd :: "number \<Rightarrow> string option \<Rightarrow> string option \<Rightarrow> adData" where
  "exampleAd i music nonMusic = \<lparr>index = i, musicAudioSrc = music, nonMusicAudioSrc = nonMusic,
     transcriptSents = Pending, englishTranscriptSents = None, insights = Pending,
     location = Some ''Nigeria'', status = StatusPending, theme = Some ''#FF5733''\<rparr>"

definition exampleStore :: adDataState where
  "exampleStore = \<lparr>ads = [exampleAd 0 (Some ''pending'') (Some ''pending''),
                           exampleAd 1 None (Some ''pending''),
                           exampleAd 2 (Some ''pending'') (Some ''blob:speech-2''),
                           exampleAd 3 (Some ''error'') (Some ''pending'')],
                    activeIndex = Some 0\<rparr>"

definition emptyStore :: adDataState where
  "emptyStore = \<lparr>ads = [], activeIndex = None\<rparr>"

definition exampleLocations :: "countryData list" where
  "exampleLocations = [\<lparr>name = ''Nigeria'', code = ''NG''\<rparr>, \<lparr>name = ''Japan'', code = ''JP''\<rparr>]"

text \<open>Two draws that are doubles, \<open>0.5\<close> and \<open>0.75\<close>. Their products with 12 are 6 and 9,
  which are doubles too, so on them the host's multiplication is the exact product.\<close>

definition exampleDraws :: "nat \<Rightarrow> rat" where
  "exampleDraws i = (if i = 0 then 1 / 2 else 3 / 4)"

definition exampleTimes :: "rat \<Rightarrow> rat \<Rightarrow> rat" where
  "exampleTimes a b = a * b"

text \<open>
  Two sessions on the same store, as the page does when it is mounted a second time: the store
  is a module-level object, so the second \<open>populateAds\<close> finds the items of the first. Then an
  \<open>insight\<close> frame for index 0 of the second session,
  \<^verbatim>\<open>{"type":"insight","index":0,"insights":[{"insight":"now","explanation":"urgency"}]}\<close>.
\<close>

definition firstSession :: adDataState where
  "firstSession = populateAds exampleTimes exampleDraws exampleLocations emptyStore"

definition secondLocations :: "countryData list" where
  "secondLocations = [\<lparr>name = ''Brazil'', code = ''BR''\<rparr>, \<lparr>name = ''India'', code = ''IN''\<rparr>]"

definition secondSession :: adDataState where
  "secondSession = populateAds exampleTimes exampleDraws secondLocations firstSession"

definition insightFrame :: json where
  "insightFrame = JObj [(''type'', JStr ''insight''), (''index'', JNum 0),
                        (''insights'', JArr [JObj [(''insight'', JStr ''now''),
                                                    (''explanation'', JStr ''urgency'')]])]"

definition pendingAd :: "number \<Rightarrow> adData" where
  "pendingAd i = exampleAd i (Some ''pending'') (Some ''pending'')"

definition pendingStore :: adDataState where
  "pendingStore = \<lparr>ads = [pendingAd 0, pendingAd 1, pendingAd 2, pendingAd 3], activeIndex = Some 0\<rparr>"

definition speechErrorFrame :: json where
  "speechErrorFrame = JObj [(''type'', JStr ''error''), (''step'', JStr ''speech''),
                            (''index'', JNum 3), (''message'', JStr ''speech generation failed'')]"

definition stepMissingErrorFrame :: json where
  "stepMissingErrorFrame = JObj [(''type'', JStr ''error''), (''index'', JNum 3),
                                 (''message'', JStr ''generation failed'')]"

definition dq :: char where
  "dq = CHR 0x22"

text \<open>The text of the error frame without a step,
  \<^verbatim>\<open>{"type":"error","index":3,"message":"generation failed"}\<close>, and a host that parses
  this text and nothing else.\<close>

definition stepMissingErrorText :: string where
  "stepMissingErrorText =
     ''{'' @ [dq] @ ''type'' @ [dq] @ '':'' @ [dq] @ ''error'' @ [dq] @ '','' @
     [dq] @ ''index'' @ [dq] @ '':3,'' @
     [dq] @ ''message'' @ [dq] @ '':'' @ [dq] @ ''generation failed'' @ [dq] @ ''}''"

definition stepMissingParse :: "string \<Rightarrow> json option" where
  "stepMissingParse txt = (if txt = stepMissingErrorText then Some stepMissingErrorFrame else None)"

text \<open>The metadata text
  \<^verbatim>\<open>{"type":"speech","index":0,"transcript":"hi","translations":null,"alignments":[]}\<close>,
  its bytes, and the value \<open>JSON.parse\<close> gives for it.\<close>

definition speechMetaText :: string where
  "speechMetaText =
     ''{'' @ [dq] @ ''type'' @ [dq] @ '':'' @ [dq] @ ''speech'' @ [dq] @ '','' @
     [dq] @ ''index'' @ [dq] @ '':0,'' @
     [dq] @ ''transcript'' @ [dq] @ '':'' @ [dq] @ ''hi'' @ [dq] @ '','' @
     [dq] @ ''translations'' @ [dq] @ '':null,'' @
     [dq] @ ''alignments'' @ [dq] @ '':[]}''"

definition speechMetaBytes :: "byte list" where
  "speechMetaBytes = map (\<lambda>c. of_nat (of_char c)) speechMetaText"

definition speechMetaJson :: json where
  "speechMetaJson = JObj [(''type'', JStr ''speech''), (''index'', JNum 0),
                          (''transcript'', JStr ''hi''), (''translations'', JNull),
                          (''alignments'', JArr [])]"

definition audioBytes5 :: "byte list" where
  "audioBytes5 = [0xFF, 0xFB, 0x90, 0x64, 0x00]"

text \<open>A host that decodes and parses the example metadata and nothing else.\<close>

definition exampleDecode :: "byte list \<Rightarrow> string" where
  "exampleDecode bs = (if bs = speechMetaBytes then speechMetaText else [])"

definition exampleParse :: "string \<Rightarrow> json option" where
  "exampleParse txt = (if txt = speechMetaText then Some speechMetaJson else None)"

text \<open>A speech message whose metadata has a translation list: the transcript has two lines,
  the translation list has two other lines.\<close>

definition translatedSpeechJson :: json where
  "translatedSpeechJson =
     JObj [(''type'', JStr ''speech''), (''index'', JNum 1),
           (''transcript'', JStr (''Buy now'' @ [newline] @ ''Today only'')),
           (''translations'', JArr [JStr ''Compra ahora'', JStr ''Solo hoy'']),
           (''alignments'', JArr [JObj [(''text'', JStr ''Compra ahora''), (''start'', JNum 0),
                                         (''end'', JNum (3 / 2))],
                                   JObj [(''text'', JStr ''Solo hoy''), (''start'', JNum (3 / 2)),
                                         (''end'', JNum 3)]])]"

definition translatedSpeechMeta :: responsePayload where
  "translatedSpeechMeta =
     \<lparr>rp_type = ''speech'', rp_message = None, rp_index = Some 1, rp_step = None,
      rp_transcript = Some (''Buy now'' @ [newline] @ ''Today only''),
      rp_translations = Some (Some [''Compra ahora'', ''Solo hoy'']),
      rp_alignments = Some [\<lparr>s_text = ''Compra ahora'', s_start = 0, s_end = 3 / 2\<rparr>,
                            \<lparr>s_text = ''Solo hoy'', s_start = 3 / 2, s_end = 3\<rparr>],
      rp_insights = None\<rparr>"

definition backslash :: char where
  "backslash = CHR 0x5C"

text \<open>The metadata text of that message, with the line break of the transcript escaped as
  JSON requires, and the frame that carries it in front of five audio bytes.\<close>

definition translatedSpeechText :: string where
  "translatedSpeechText =
     ''{'' @ [dq] @ ''type'' @ [dq] @ '':'' @ [dq] @ ''speech'' @ [dq] @ '','' @ [dq] @
     ''index'' @ [dq] @ '':1,'' @ [dq] @ ''transcript'' @ [dq] @ '':'' @ [dq] @
     ''Buy now'' @ [backslash] @ ''nToday only'' @ [dq] @ '','' @ [dq] @ ''translations'' @
     [dq] @ '':['' @ [dq] @ ''Compra ahora'' @ [dq] @ '','' @ [dq] @ ''Solo hoy'' @ [dq] @
     ''],'' @ [dq] @ ''alignments'' @ [dq] @ '':[{'' @ [dq] @ ''text'' @ [dq] @ '':'' @
     [dq] @ ''Compra ahora'' @ [dq] @ '','' @ [dq] @ ''start'' @ [dq] @ '':0,'' @ [dq] @
     ''end'' @ [dq] @ '':1.5},{'' @ [dq] @ ''text'' @ [dq] @ '':'' @ [dq] @ ''Solo hoy'' @
     [dq] @ '','' @ [dq] @ ''start'' @ [dq] @ '':1.5,'' @ [dq] @ ''end'' @ [dq] @ '':3}]}''"

definition translatedSpeechBytes :: "byte list" where
  "translatedSpeechBytes = map (\<lambda>c. of_nat (of_char c)) translatedSpeechText"

definition translatedSpeechFrame :: "byte list" where
  "translatedSpeechFrame = binaryFrame translatedSpeechBytes audioBytes5"

text \<open>A host that decodes and parses the metadata of the translated speech message and
  nothing else.\<close>

definition translatedDecode :: "byte list \<Rightarrow> string" where
  "translatedDecode bs = (if bs = translatedSpeechBytes then translatedSpeechText else [])"

definition translatedParse :: "string \<Rightarrow> json option" where
  "translatedParse txt = (if txt = translatedSpeechText then Some translatedSpeechJson else None)"

text \<open>The store as created, with an empty timer table.\<close>

definition initialNotificationState :: notificationState where
  "initialNotificationState =
     \<lparr>notifications = [], activeTrackIndex = None, batchedUpdates = [], batchTimer = None,
      timers = [], nextHandle = 1\<rparr>"

definition threeReadyEvents :: "(nat \<times> string \<times> nat) list" where
  "threeReadyEvents = [(1000, ''k3j9x0q1a'', 0), (1400, ''p8w2m5z7c'', 1), (1900, ''t6y4n1b3d'', 2)]"

definition fourReadyEvents :: "(nat \<times> string \<times> nat) list" where
  "fourReadyEvents = threeReadyEvents @ [(2500, ''v0c8r2e6f'', 3)]"

section \<open>The bulk terminal operations\<close>

lemma failAd_fields:
  "musicAudioSrc (failAd ad) = (if musicAudioSrc ad = Some ''pending'' then Some ''error'' else musicAudioSrc ad)"
  "nonMusicAudioSrc (failAd ad) = (if nonMusicAudioSrc ad = Some ''pending'' then Some ''error'' else nonMusicAudioSrc ad)"
  "transcriptSents (failAd ad) = (if transcriptSents ad = Pending then Error else transcriptSents ad)"
  "insights (failAd ad) = (if insights ad = Pending then Error else insights ad)"
  "status (failAd ad) = StatusDone"
  "index (failAd ad) = index ad"
  "englishTranscriptSents (failAd ad) = englishTranscriptSents ad"
  "location (failAd ad) = location ad"
  "theme (failAd ad) = theme ad"
  by (cases "status ad"; simp add: failAd_def)+

lemma nullifyAd_fields:
  "musicAudioSrc (nullifyAd ad) = (if musicAudioSrc ad = Some ''pending'' then None else musicAudioSrc ad)"
  "nonMusicAudioSrc (nullifyAd ad) = (if nonMusicAudioSrc ad = Some ''pending'' then None else nonMusicAudioSrc ad)"
  "transcriptSents (nullifyAd ad) = (if transcriptSents ad = Pending then Null else transcriptSents ad)"
  "insights (nullifyAd ad) = (if insights ad = Pending then Null else insights ad)"
  "status (nullifyAd ad) = StatusDone"
  "index (nullifyAd ad) = index ad"
  "englishTranscriptSents (nullifyAd ad) = englishTranscriptSents ad"
  "location (nullifyAd ad) = location ad"
  "theme (nullifyAd ad) = theme ad"
  by (cases "status ad"; simp add: nullifyAd_def)+

lemma failAd_idem: "failAd (failAd ad) = failAd ad"
  by (cases "status ad") (simp_all add: failAd_def)

lemma nullifyAd_idem: "nullifyAd (nullifyAd ad) = nullifyAd ad"
  by (cases "status ad") (simp_all add: nullifyAd_def)

text \<open>
  Claim C1. \<open>failAllPendingRequests\<close> keeps the number and order of the items; in every item
  each of \<open>musicAudioSrc\<close>, \<open>nonMusicAudioSrc\<close>, \<open>transcriptSents\<close> and \<open>insights\<close> that is
  \<open>pending\<close> becomes \<open>error\<close> and each that is not \<open>pending\<close> keeps its value; the status of
  every item is \<open>done\<close> afterwards; the other fields are untouched.
\<close>

theorem failAllPendingRequests_effect:
  "length (ads (failAllPendingRequests st)) = length (ads st) \<and>
   activeIndex (failAllPendingRequests st) = activeIndex st \<and>
   (\<forall>k < length (ads st).
      let a = ads st ! k; a' = ads (failAllPendingRequests st) ! k
      in musicAudioSrc a' = (if musicAudioSrc a = Some ''pending'' then Some ''error'' else musicAudioSrc a) \<and>
         nonMusicAudioSrc a' = (if nonMusicAudioSrc a = Some ''pending'' then Some ''error'' else nonMusicAudioSrc a) \<and>
         transcriptSents a' = (if transcriptSents a = Pending then Error else transcriptSents a) \<and>
         insights a' = (if insights a = Pending then Error else insights a) \<and>
         status a' = StatusDone \<and>
         index a' = index a \<and> englishTranscriptSents a' = englishTranscriptSents a \<and>
         location a' = location a \<and> theme a' = theme a)"
  by (simp add: failAllPendingRequests_def failAd_fields Let_def)

text \<open>The instance of the specification: item 2 has \<open>musicAudioSrc = pending\<close> and a ready
  \<open>nonMusicAudioSrc\<close>.\<close>

theorem failAllPendingRequests_effect_witness:
  "(2::nat) < length (ads exampleStore) \<and>
   musicAudioSrc (ads exampleStore ! 2) = Some ''pending'' \<and>
   nonMusicAudioSrc (ads exampleStore ! 2) = Some ''blob:speech-2'' \<and>
   musicAudioSrc (ads (failAllPendingRequests exampleStore) ! 2) = Some ''error'' \<and>
   nonMusicAudioSrc (ads (failAllPendingRequests exampleStore) ! 2) = Some ''blob:speech-2'' \<and>
   status (ads (failAllPendingRequests exampleStore) ! 2) = StatusDone"
proof -
  have len: "(2::nat) < length (ads exampleStore)"
    by (simp add: exampleStore_def)
  have before: "musicAudioSrc (ads exampleStore ! 2) = Some ''pending''"
    "nonMusicAudioSrc (ads exampleStore ! 2) = Some ''blob:speech-2''"
    by (simp_all add: exampleStore_def exampleAd_def)
  from failAllPendingRequests_effect [of exampleStore] len
  have "let a = ads exampleStore ! 2; a' = ads (failAllPendingRequests exampleStore) ! 2
        in musicAudioSrc a' = (if musicAudioSrc a = Some ''pending'' then Some ''error'' else musicAudioSrc a) \<and>
         nonMusicAudioSrc a' = (if nonMusicAudioSrc a = Some ''pending'' then Some ''error'' else nonMusicAudioSrc a) \<and>
         transcriptSents a' = (if transcriptSents a = Pending then Error else transcriptSents a) \<and>
         insights a' = (if insights a = Pending then Error else insights a) \<and>
         status a' = StatusDone \<and>
         index a' = index a \<and> englishTranscriptSents a' = englishTranscriptSents a \<and>
         location a' = location a \<and> theme a' = theme a"
    by blast
  with len before show ?thesis by (simp add: Let_def)
qed

text \<open>
  Claim C9. Both bulk terminal operations are idempotent: applying \<open>failAllPendingRequests\<close>
  twice gives the collection that applying it once gives, and so does
  \<open>nullifyAllPendingRequests\<close>.
\<close>

theorem bulk_operations_idempotent:
  "failAllPendingRequests (failAllPendingRequests st) = failAllPendingRequests st \<and>
   nullifyAllPendingRequests (nullifyAllPendingRequests st) = nullifyAllPendingRequests st"
  by (simp add: failAllPendingRequests_def nullifyAllPendingRequests_def failAd_idem nullifyAd_idem)

section \<open>Writing an item back\<close>

text \<open>
  Claim C10. When no item of the collection has the index of the patch, \<open>updateAd\<close> leaves the
  store as it is: nothing is added, removed or changed.
\<close>

theorem updateAd_no_match_unchanged:
  assumes "\<forall>ad \<in> set (ads st). index ad \<noteq> index patch"
  shows "updateAd patch st = st"
proof -
  have "map (\<lambda>ad. if index ad = index patch then patch else ad) (ads st) = ads st"
    using assms by (induction "ads st") (simp_all add: map_idI)
  then show ?thesis by (simp add: updateAd_def)
qed

text \<open>The example store holds the indexes 0 to 3; a patch with index 7 changes nothing.\<close>

theorem updateAd_no_match_unchanged_witness:
  "length (ads exampleStore) = 4 \<and>
   updateAd (exampleAd 7 None None) exampleStore = exampleStore"
proof -
  have h: "\<forall>ad \<in> set (ads exampleStore). index ad \<noteq> index (exampleAd 7 None None)"
    by (simp add: exampleStore_def exampleAd_def)
  have "length (ads exampleStore) = 4"
    by (simp add: exampleStore_def)
  with updateAd_no_match_unchanged [OF h] show ?thesis by simp
qed

section \<open>The derived loading state\<close>

text \<open>Where indexes are distinct, every item of the collection is the one found by its
  index.\<close>

lemma findAd_member:
  "ad \<in> set as \<Longrightarrow> distinct (map index as) \<Longrightarrow> findAd as (index ad) = Some ad"
  unfolding findAd_def by (induction as) (auto simp: image_iff)

text \<open>
  Claim C6. For the item the store holds under an index, \<open>getAdLoadingState\<close> is true exactly
  when both audio variants are \<open>pending\<close>, or exactly one of them is \<open>null\<close> and the other is
  \<open>pending\<close>.
\<close>

theorem getAdLoadingState_iff:
  assumes "findAd (ads st) i = Some ad"
  shows "getAdLoadingState st i \<longleftrightarrow>
           (musicAudioSrc ad = Some ''pending'' \<and> nonMusicAudioSrc ad = Some ''pending'') \<or>
           (musicAudioSrc ad = None \<and> nonMusicAudioSrc ad \<noteq> None \<and> nonMusicAudioSrc ad = Some ''pending'') \<or>
           (nonMusicAudioSrc ad = None \<and> musicAudioSrc ad \<noteq> None \<and> musicAudioSrc ad = Some ''pending'')"
  using assms by (auto simp: getAdLoadingState_def Let_def)

text \<open>The two instances of the specification: \<open>null\<close> with \<open>pending\<close> is loading, \<open>error\<close>
  with \<open>pending\<close> is not.\<close>

theorem getAdLoadingState_iff_witness:
  "findAd (ads exampleStore) 1 = Some (exampleAd 1 None (Some ''pending'')) \<and>
   getAdLoadingState exampleStore 1 \<and>
   findAd (ads exampleStore) 3 = Some (exampleAd 3 (Some ''error'') (Some ''pending'')) \<and>
   \<not> getAdLoadingState exampleStore 3"
proof -
  have f1: "findAd (ads exampleStore) 1 = Some (exampleAd 1 None (Some ''pending''))"
    by (simp add: findAd_def exampleStore_def exampleAd_def)
  have f3: "findAd (ads exampleStore) 3 = Some (exampleAd 3 (Some ''error'') (Some ''pending''))"
    by (simp add: findAd_def exampleStore_def exampleAd_def)
  from getAdLoadingState_iff [OF f1] have l1: "getAdLoadingState exampleStore 1"
    by (simp add: exampleAd_def)
  from getAdLoadingState_iff [OF f3] have l3: "\<not> getAdLoadingState exampleStore 3"
    by (simp add: exampleAd_def)
  from f1 l1 f3 l3 show ?thesis by simp
qed

section \<open>Error frames\<close>

lemmas schema_defs =
  ResponsePayload_def zRequired_def zOptional_def zLiterals_def zNullable_def zArray_def
  zString_def zNumber_def getProp_def messageTypes_def Step_def sentenceAlignment_def
  insightSchema_def

text \<open>A step that passed \<open>ResponsePayload\<close> is one of the five literals.\<close>

lemma zLiterals_member: "zLiterals lits j = Some s \<Longrightarrow> s \<in> set lits"
  by (auto simp: zLiterals_def split: json.splits if_splits)

lemma ResponsePayload_step:
  assumes "ResponsePayload j = Some resData" "rp_step resData = Some s"
  shows "s \<in> set Step"
proof -
  from assms(1) obtain kvs where j: "j = JObj kvs"
    by (cases j) (simp_all add: ResponsePayload_def)
  from assms(1) j have "zOptional (zLiterals Step) (getProp kvs ''step'') = Some (rp_step resData)"
    by (auto simp: ResponsePayload_def split: option.splits prod.splits)
  with assms(2) obtain v where "zLiterals Step v = Some s"
    by (auto simp: zOptional_def split: option.splits)
  then show ?thesis by (rule zLiterals_member)
qed

lemma findAd_index: "findAd as i = Some ad \<Longrightarrow> index ad = i"
  unfolding findAd_def by (induction as) (auto split: if_splits)

text \<open>
  Claim C2 as stated fails for a frame without a step: \<open>AdErrorPayload\<close> requires the step, so
  the handler throws before it assigns anything, \<open>handleMessage\<close> catches the exception, and
  the item keeps its four \<open>pending\<close> fields instead of getting four errors.
\<close>

theorem error_frame_counterexample:
  "findAd (ads pendingStore) 3 = Some (pendingAd 3) \<and>
   musicAudioSrc (pendingAd 3) = Some ''pending'' \<and>
   handleJsonMessage stepMissingErrorFrame pendingStore = Inl ZodError \<and>
   store (handleMessage stepMissingParse (TextData stepMissingErrorText)
            (generateAds False None pendingStore)) = pendingStore"
proof -
  have rp: "ResponsePayload stepMissingErrorFrame =
      Some \<lparr>rp_type = ''error'', rp_message = Some ''generation failed'', rp_index = Some 3,
            rp_step = None, rp_transcript = None, rp_translations = None,
            rp_alignments = None, rp_insights = None\<rparr>"
    by (simp add: stepMissingErrorFrame_def schema_defs)
  have f: "findAd (ads pendingStore) 3 = Some (pendingAd 3)"
    by (simp add: findAd_def pendingStore_def pendingAd_def exampleAd_def)
  have ev: "jsonEvent stepMissingErrorFrame = None"
    by (simp add: jsonEvent_def stepMissingErrorFrame_def getProp_def)
  have h: "handleJsonMessage stepMissingErrorFrame pendingStore = Inl ZodError"
    by (simp add: handleJsonMessage_def rp ev locateTarget_def f handleAdError_def AdErrorPayload_def)
  have m: "musicAudioSrc (pendingAd 3) = Some ''pending''"
    by (simp add: pendingAd_def exampleAd_def)
  have "store (handleMessage stepMissingParse (TextData stepMissingErrorText)
            (generateAds False None pendingStore)) = pendingStore"
    by (simp add: handleMessage_def stepMissingParse_def h generateAds_def)
  with f m h show ?thesis by simp
qed

text \<open>
  Claim C2, amended. Take a received error frame that passes the message schema, is not a
  transcription event, and whose index is that of an item of the store. If it carries a step
  and a message, every item with that index becomes the located item changed by the step:
  \<open>merged\<close> or \<open>music\<close> sets only \<open>musicAudioSrc\<close> to \<open>error\<close>; \<open>speech\<close> sets exactly
  \<open>nonMusicAudioSrc\<close> and \<open>transcriptSents\<close> to \<open>error\<close>; the other steps the schema allows
  (\<open>insights\<close>, \<open>transcript\<close>) set all four fields to \<open>error\<close>. If the step or the message is
  missing, validation fails and the store is left as it was. A step outside the five literals
  never passes the message schema.
\<close>

theorem error_frame_mapping:
  assumes "ResponsePayload j = Some resData"
    and "jsonEvent j \<noteq> Some (JStr ''transcription'')"
    and "rp_type resData = ''error''"
    and "rp_index resData = Some i"
    and "findAd (ads st) i = Some ad"
  shows "handleJsonMessage j st =
     (case (rp_step resData, rp_message resData) of
        (Some s, Some m) \<Rightarrow>
          Inr (st\<lparr>ads := map (\<lambda>a. if index a = i
                 then (if s = ''merged'' \<or> s = ''music'' then ad\<lparr>musicAudioSrc := Some ''error''\<rparr>
                       else if s = ''speech'' then
                         ad\<lparr>nonMusicAudioSrc := Some ''error'', transcriptSents := Error\<rparr>
                       else ad\<lparr>musicAudioSrc := Some ''error'', nonMusicAudioSrc := Some ''error'',
                               transcriptSents := Error, insights := Error\<rparr>)
                 else a) (ads st)\<rparr>)
      | _ \<Rightarrow> Inl ZodError) \<and>
     (\<forall>s. rp_step resData = Some s \<longrightarrow> s \<in> set Step)"
proof -
  have idx: "index ad = i" using assms(5) by (rule findAd_index)
  have target: "locateTarget resData st = Some ad"
    using assms(4,5) by (simp add: locateTarget_def)
  have steps: "\<forall>s. rp_step resData = Some s \<longrightarrow> s \<in> set Step"
    using assms(1) by (blast intro: ResponsePayload_step)
  have "handleJsonMessage j st =
     (case (rp_step resData, rp_message resData) of
        (Some s, Some m) \<Rightarrow>
          Inr (st\<lparr>ads := map (\<lambda>a. if index a = i
                 then (if s = ''merged'' \<or> s = ''music'' then ad\<lparr>musicAudioSrc := Some ''error''\<rparr>
                       else if s = ''speech'' then
                         ad\<lparr>nonMusicAudioSrc := Some ''error'', transcriptSents := Error\<rparr>
                       else ad\<lparr>musicAudioSrc := Some ''error'', nonMusicAudioSrc := Some ''error'',
                               transcriptSents := Error, insights := Error\<rparr>)
                 else a) (ads st)\<rparr>)
      | _ \<Rightarrow> Inl ZodError)"
  proof (cases "rp_step resData")
    case None
    then show ?thesis
      using assms(1-3) target
      by (simp add: handleJsonMessage_def handleAdError_def AdErrorPayload_def)
  next
    case (Some s)
    note step = this
    have inStep: "s \<in> set Step" using steps step by blast
    show ?thesis
    proof (cases "rp_message resData")
      case None
      then show ?thesis
        using assms(1-4) target step
        by (simp add: handleJsonMessage_def handleAdError_def AdErrorPayload_def)
    next
      case (Some m)
      then show ?thesis
        using assms(1-4) target step inStep idx
        by (simp add: handleJsonMessage_def handleAdError_def AdErrorPayload_def updateAd_def)
    qed
  qed
  with steps show ?thesis by blast
qed

text \<open>The instance of the specification: step \<open>speech\<close>, index 3, all four fields of item 3
  \<open>pending\<close>.\<close>

theorem error_frame_mapping_witness:
  "handleJsonMessage speechErrorFrame pendingStore =
     Inr (pendingStore\<lparr>ads := [pendingAd 0, pendingAd 1, pendingAd 2,
            (pendingAd 3)\<lparr>nonMusicAudioSrc := Some ''error'', transcriptSents := Error\<rparr>]\<rparr>) \<and>
   musicAudioSrc ((pendingAd 3)\<lparr>nonMusicAudioSrc := Some ''error'', transcriptSents := Error\<rparr>) = Some ''pending'' \<and>
   insights ((pendingAd 3)\<lparr>nonMusicAudioSrc := Some ''error'', transcriptSents := Error\<rparr>) = Pending"
proof -
  have rp: "ResponsePayload speechErrorFrame =
      Some \<lparr>rp_type = ''error'', rp_message = Some ''speech generation failed'', rp_index = Some 3,
            rp_step = Some ''speech'', rp_transcript = None, rp_translations = None,
            rp_alignments = None, rp_insights = None\<rparr>"
    by (simp add: speechErrorFrame_def schema_defs)
  have ev: "jsonEvent speechErrorFrame \<noteq> Some (JStr ''transcription'')"
    by (simp add: jsonEvent_def speechErrorFrame_def getProp_def)
  have f: "findAd (ads pendingStore) 3 = Some (pendingAd 3)"
    by (simp add: findAd_def pendingStore_def pendingAd_def exampleAd_def)
  from error_frame_mapping [OF rp ev _ _ f]
  have "handleJsonMessage speechErrorFrame pendingStore =
     Inr (pendingStore\<lparr>ads := [pendingAd 0, pendingAd 1, pendingAd 2,
            (pendingAd 3)\<lparr>nonMusicAudioSrc := Some ''error'', transcriptSents := Error\<rparr>]\<rparr>)"
    by (simp add: pendingStore_def pendingAd_def exampleAd_def)
  then show ?thesis by (simp add: pendingAd_def exampleAd_def)
qed

section \<open>Decoding a binary frame\<close>

text \<open>Reading the length prefix gives back the length that was written, below \<open>2^32\<close>.\<close>

lemma getUint32_u32le:
  assumes "n < 2 ^ 32"
  shows "getUint32 (u32le n @ rest) = Inr n"
proof -
  define a where "a = n div 256"
  define b where "b = a div 256"
  define c where "c = b div 256"
  have b_eq: "n div 65536 = b"
    unfolding b_def a_def by (simp add: div_mult2_eq [symmetric])
  have c_eq: "n div 16777216 = c"
    unfolding c_def b_def a_def by (simp add: div_mult2_eq [symmetric])
  have "c < 256"
    unfolding c_eq [symmetric] using assms by (simp add: less_mult_imp_div_less)
  then have c_mod: "c mod 256 = c" by simp
  have n_eq: "n = n mod 256 + 256 * a" unfolding a_def by simp
  have a_eq: "a = a mod 256 + 256 * b" unfolding b_def by simp
  have b_eq2: "b = b mod 256 + 256 * c" unfolding c_def by simp
  have "n mod 256 + 256 * (a mod 256) + 65536 * (b mod 256) + 16777216 * c = n"
    using n_eq a_eq b_eq2 by linarith
  then have "n mod 256 + 256 * (n div 256 mod 256) + 65536 * (n div 65536 mod 256)
        + 16777216 * (n div 16777216 mod 256) = n"
    by (simp add: b_eq c_eq c_mod a_def [symmetric])
  moreover have "n div 16777216 mod 256 = n div 16777216"
    by (simp add: c_eq c_mod)
  ultimately show ?thesis
    by (simp add: getUint32_def u32le_def unat_of_nat)
qed

lemma length_u32le: "length (u32le n) = 4"
  by (simp add: u32le_def)

text \<open>On a frame laid out as the protocol says, the decoder's split gives back the metadata
  bytes and the audio bytes.\<close>

lemma decodeFrame_binaryFrame:
  assumes len: "length meta < 2 ^ 32"
  shows "decodeFrame JSON_parse decode (binaryFrame meta audio) =
        (case JSON_parse (decode meta) of
           None \<Rightarrow> Inl SyntaxError
         | Some j \<Rightarrow>
             (case ResponsePayload j of
                None \<Rightarrow> Inl ZodError
              | Some metadata \<Rightarrow> Inr (metadata, audio)))"
proof -
  have g: "getUint32 (binaryFrame meta audio) = Inr (length meta)"
    unfolding binaryFrame_def using len by (rule getUint32_u32le)
  have m: "take (length meta) (drop 4 (binaryFrame meta audio)) = meta"
    by (simp add: binaryFrame_def length_u32le)
  have a: "drop (4 + length meta) (binaryFrame meta audio) = audio"
    by (simp add: binaryFrame_def length_u32le)
  have l: "\<not> 4 + length meta > length (binaryFrame meta audio)"
    by (simp add: binaryFrame_def length_u32le)
  show ?thesis
    unfolding decodeFrame_def g using l
    by (simp add: m a Let_def split: option.splits)
qed

lemma decodeFrame_out_of_range:
  assumes "getUint32 buf = Inr L" "length buf < 4 + L"
  shows "decodeFrame JSON_parse decode buf = Inl RangeError"
  using assms by (simp add: decodeFrame_def)

text \<open>
  Claim C3. For a well-formed binary frame (a four-byte little-endian length \<open>L\<close>, \<open>L\<close> bytes
  of metadata, then the audio bytes, of any length including none) the decoder splits at
  offset \<open>4 + L\<close>: the result is the metadata text parsed as JSON and validated against the
  message schema, together with the remaining bytes unchanged; it fails exactly when the
  parse or the validation of the metadata fails. A buffer whose length prefix reaches past
  its end, in particular a prefix larger than the buffer, is a decode failure.
\<close>

theorem decodeFrame_wellformed:
  "(length meta < 2 ^ 32 \<longrightarrow>
      decodeFrame JSON_parse decode (binaryFrame meta audio) =
        (case JSON_parse (decode meta) of
           None \<Rightarrow> Inl SyntaxError
         | Some j \<Rightarrow>
             (case ResponsePayload j of
                None \<Rightarrow> Inl ZodError
              | Some metadata \<Rightarrow> Inr (metadata, audio)))) \<and>
   (\<forall>L. getUint32 buf = Inr L \<and> length buf < 4 + L \<longrightarrow>
      decodeFrame JSON_parse decode buf = Inl RangeError)"
  using decodeFrame_binaryFrame [of meta JSON_parse decode audio]
    decodeFrame_out_of_range [of buf _ JSON_parse decode]
  by blast

text \<open>The example metadata of the specification has 81 bytes; it is decoded in front of five
  audio bytes and in front of none. A prefix of 200 on a six-byte buffer fails.\<close>

lemma length_speechMetaBytes: "length speechMetaBytes = 81"
  by (simp add: speechMetaBytes_def speechMetaText_def)

theorem decodeFrame_wellformed_witness:
  "length speechMetaBytes = 81 \<and> audioBytes5 = [0xFF, 0xFB, 0x90, 0x64, 0x00] \<and>
   decodeFrame exampleParse exampleDecode (binaryFrame speechMetaBytes audioBytes5) =
     Inr (\<lparr>rp_type = ''speech'', rp_message = None, rp_index = Some 0, rp_step = None,
           rp_transcript = Some ''hi'', rp_translations = Some None,
           rp_alignments = Some [], rp_insights = None\<rparr>, audioBytes5) \<and>
   decodeFrame exampleParse exampleDecode (binaryFrame speechMetaBytes []) =
     Inr (\<lparr>rp_type = ''speech'', rp_message = None, rp_index = Some 0, rp_step = None,
           rp_transcript = Some ''hi'', rp_translations = Some None,
           rp_alignments = Some [], rp_insights = None\<rparr>, []) \<and>
   decodeFrame exampleParse exampleDecode [200, 0, 0, 0, 0x7B, 0x7D] = Inl RangeError"
proof -
  have len: "length speechMetaBytes < 2 ^ 32"
    by (simp add: length_speechMetaBytes)
  have rp: "ResponsePayload speechMetaJson =
      Some \<lparr>rp_type = ''speech'', rp_message = None, rp_index = Some 0, rp_step = None,
            rp_transcript = Some ''hi'', rp_translations = Some None,
            rp_alignments = Some [], rp_insights = None\<rparr>"
    by (simp add: speechMetaJson_def schema_defs)
  have p: "exampleParse (exampleDecode speechMetaBytes) = Some speechMetaJson"
    by (simp add: exampleParse_def exampleDecode_def)
  have g: "getUint32 [200, 0, 0, 0, 0x7B, 0x7D] = Inr 200"
    by (simp add: getUint32_def)
  have d5: "decodeFrame exampleParse exampleDecode (binaryFrame speechMetaBytes audioBytes5) =
     Inr (\<lparr>rp_type = ''speech'', rp_message = None, rp_index = Some 0, rp_step = None,
           rp_transcript = Some ''hi'', rp_translations = Some None,
           rp_alignments = Some [], rp_insights = None\<rparr>, audioBytes5)"
    using decodeFrame_wellformed [of speechMetaBytes exampleParse exampleDecode audioBytes5] len
    by (simp add: p rp)
  have d0: "decodeFrame exampleParse exampleDecode (binaryFrame speechMetaBytes []) =
     Inr (\<lparr>rp_type = ''speech'', rp_message = None, rp_index = Some 0, rp_step = None,
           rp_transcript = Some ''hi'', rp_translations = Some None,
           rp_alignments = Some [], rp_insights = None\<rparr>, [])"
    using decodeFrame_wellformed [of speechMetaBytes exampleParse exampleDecode "[]"] len
    by (simp add: p rp)
  have r: "decodeFrame exampleParse exampleDecode [200, 0, 0, 0, 0x7B, 0x7D] = Inl RangeError"
    using decodeFrame_wellformed [of "[]" exampleParse exampleDecode "[]" "[200, 0, 0, 0, 0x7B, 0x7D]"] g
    by simp
  from length_speechMetaBytes d5 d0 r show ?thesis by (simp add: audioBytes5_def)
qed

section \<open>Speech messages\<close>

lemma ResponsePayload_translatedSpeechJson:
  "ResponsePayload translatedSpeechJson = Some translatedSpeechMeta"
  by (simp add: translatedSpeechJson_def translatedSpeechMeta_def schema_defs)

lemma decodeFrame_translatedSpeechFrame:
  "decodeFrame translatedParse translatedDecode translatedSpeechFrame =
     Inr (translatedSpeechMeta, audioBytes5)"
proof -
  have "length translatedSpeechBytes < 2 ^ 32"
    by (simp add: translatedSpeechBytes_def translatedSpeechText_def)
  then show ?thesis
    unfolding translatedSpeechFrame_def
    by (simp add: decodeFrame_binaryFrame translatedParse_def translatedDecode_def
        ResponsePayload_translatedSpeechJson)
qed





section \<open>Transport close and transport error\<close>

lemma failAllPendingRequests_idem:
  "failAllPendingRequests (failAllPendingRequests st) = failAllPendingRequests st"
  by (simp add: failAllPendingRequests_def failAd_idem)

text \<open>What one event does to the count of invocations, to the store and to the socket.\<close>

lemma deliver_calls:
  "failAllPendingCalls (deliver JSON_parse decode ev s) =
     failAllPendingCalls s + (if terminal ev then 1 else 0)"
  by (cases ev)
     (auto simp: terminal_def onOpen_def handleMessage_def onReaderLoad_def onClose_def
        onError_def invokeFailAllPending_def Let_def
        split: wsData.splits option.splits sum.splits prod.splits)

lemma deliver_terminal_store:
  "terminal ev \<Longrightarrow> store (deliver JSON_parse decode ev s) = failAllPendingRequests (store s)"
  by (cases ev) (auto simp: terminal_def onClose_def onError_def invokeFailAllPending_def)

lemma deliver_keeps_closed:
  "socketClosed s \<Longrightarrow> socketClosed (deliver JSON_parse decode ev s)"
  by (cases ev)
     (auto simp: onOpen_def onReaderLoad_def onClose_def onError_def invokeFailAllPending_def
        Let_def split: option.splits sum.splits prod.splits)

lemma deliver_Close_closed: "socketClosed (deliver JSON_parse decode Close s)"
  by (simp add: onClose_def invokeFailAllPending_def)

lemma run_calls:
  "failAllPendingCalls (run JSON_parse decode evs s) =
     failAllPendingCalls s + length (filter terminal evs)"
  unfolding run_def by (induction evs arbitrary: s) (simp_all add: deliver_calls)

lemma run_terminal_store:
  assumes "evs \<noteq> []" "\<forall>ev \<in> set evs. terminal ev"
  shows "store (run JSON_parse decode evs s) = failAllPendingRequests (store s)"
  using assms unfolding run_def
proof (induction evs arbitrary: s)
  case Nil
  then show ?case by simp
next
  case (Cons ev evs)
  show ?case
  proof (cases "evs = []")
    case True
    with Cons.prems show ?thesis by (simp add: deliver_terminal_store)
  next
    case False
    with Cons.prems Cons.IH [of "deliver JSON_parse decode ev s"] show ?thesis
      by (simp add: deliver_terminal_store failAllPendingRequests_idem)
  qed
qed

text \<open>Frames that arrive on a closed socket change nothing, however many.\<close>

lemma run_messages_closed:
  "socketClosed s \<Longrightarrow> run JSON_parse decode (map Message ds) s = s"
  unfolding run_def by (induction ds) simp_all

text \<open>A read that completes applies the frame to the store, whatever the socket's state.\<close>

lemma deliver_ReaderLoad_store:
  assumes "k < length (reading s)"
  shows "store (deliver JSON_parse decode (ReaderLoad k url) s) =
     (case handleBlobMessage JSON_parse decode url (reading s ! k) (store s) of
        Inl e \<Rightarrow> store s
      | Inr st' \<Rightarrow> st')"
  using assms
  by (simp add: onReaderLoad_def handleBlobMessage_def Let_def split: sum.splits prod.splits)

lemma translatedSpeech_in_flight:
  "run translatedParse translatedDecode [Open, Message (BlobData translatedSpeechFrame), Close]
     (generateAds False None pendingStore) =
   \<lparr>store = failAllPendingRequests pendingStore, isConnected = False, musicBuffers = None,
    sent = [SendRequest, SendFinished], reading = [translatedSpeechFrame], createdUrls = [],
    failAllPendingCalls = 1, socketClosed = True\<rparr>"
  by (simp add: run_def generateAds_def onOpen_def handleMessage_def onClose_def
      invokeFailAllPending_def)

lemma failAllPendingRequests_pendingStore:
  "failAllPendingRequests pendingStore =
     \<lparr>ads = map (\<lambda>i. \<lparr>index = i, musicAudioSrc = Some ''error'', nonMusicAudioSrc = Some ''error'',
                        transcriptSents = Error, englishTranscriptSents = None, insights = Error,
                        location = Some ''Nigeria'', status = StatusDone,
                        theme = Some ''#FF5733''\<rparr>) [0, 1, 2, 3],
      activeIndex = Some 0\<rparr>"
  by (simp add: failAllPendingRequests_def pendingStore_def pendingAd_def exampleAd_def failAd_def)

text \<open>
  Claim C8 as stated fails twice. The \<open>error\<close> listener and the \<open>close\<close> listener each call
  \<open>failAllPendingRequests\<close>, so a transport error followed by the close it leads to makes two
  invocations, not one. And a binary frame that arrived before the close is read
  asynchronously: when its read completes after the close, the frame is dispatched into the
  store, here setting the speech audio of item 1 that \<open>failAllPendingRequests\<close> had marked
  \<open>error\<close>.
\<close>

theorem close_and_error_counterexample:
  "failAllPendingCalls (generateAds False None pendingStore) = 0 \<and>
   failAllPendingCalls
     (run exampleParse exampleDecode [Open, SocketError, Close]
        (generateAds False None pendingStore)) = 2 \<and>
   nonMusicAudioSrc
     (ads (store (run translatedParse translatedDecode
                    [Open, Message (BlobData translatedSpeechFrame), Close]
                    (generateAds False None pendingStore))) ! 1) = Some ''error'' \<and>
   nonMusicAudioSrc
     (ads (store (run translatedParse translatedDecode
                    [Open, Message (BlobData translatedSpeechFrame), Close,
                     ReaderLoad 0 ''blob:speech-1'']
                    (generateAds False None pendingStore))) ! 1) = Some ''blob:speech-1''"
proof -
  have c0: "failAllPendingCalls (generateAds False None pendingStore) = 0"
    by (simp add: generateAds_def)
  have c2: "failAllPendingCalls
     (run exampleParse exampleDecode [Open, SocketError, Close]
        (generateAds False None pendingStore)) = 2"
    by (simp add: run_calls terminal_def generateAds_def)
  have before: "nonMusicAudioSrc
     (ads (store (run translatedParse translatedDecode
                    [Open, Message (BlobData translatedSpeechFrame), Close]
                    (generateAds False None pendingStore))) ! 1) = Some ''error''"
    by (simp add: translatedSpeech_in_flight failAllPendingRequests_pendingStore)
  let ?s = "run translatedParse translatedDecode
             [Open, Message (BlobData translatedSpeechFrame), Close]
             (generateAds False None pendingStore)"
  have split_run: "run translatedParse translatedDecode
                    [Open, Message (BlobData translatedSpeechFrame), Close,
                     ReaderLoad 0 ''blob:speech-1'']
                    (generateAds False None pendingStore) =
      deliver translatedParse translatedDecode (ReaderLoad 0 ''blob:speech-1'') ?s"
    by (simp add: run_def)
  have rd: "reading ?s = [translatedSpeechFrame]"
    and st: "store ?s = failAllPendingRequests pendingStore"
    by (simp_all add: translatedSpeech_in_flight)
  have k: "0 < length (reading ?s)" by (simp add: rd)
  have f: "findAd (ads (failAllPendingRequests pendingStore)) 1 =
      Some \<lparr>index = 1, musicAudioSrc = Some ''error'', nonMusicAudioSrc = Some ''error'',
            transcriptSents = Error, englishTranscriptSents = None, insights = Error,
            location = Some ''Nigeria'', status = StatusDone, theme = Some ''#FF5733''\<rparr>"
    by (simp add: failAllPendingRequests_pendingStore findAd_def)
  have sp: "SpeechResponsePayload translatedSpeechMeta =
      Some \<lparr>sp_index = 1, sp_transcript = ''Buy now'' @ [newline] @ ''Today only'',
            sp_translations = Some [''Compra ahora'', ''Solo hoy''],
            sp_alignments = [\<lparr>s_text = ''Compra ahora'', s_start = 0, s_end = 3 / 2\<rparr>,
                             \<lparr>s_text = ''Solo hoy'', s_start = 3 / 2, s_end = 3\<rparr>]\<rparr>"
    by (simp add: SpeechResponsePayload_def translatedSpeechMeta_def)
  have ty: "rp_type translatedSpeechMeta = ''speech''" "rp_index translatedSpeechMeta = Some 1"
    by (simp_all add: translatedSpeechMeta_def)
  have d: "dispatchBlob translatedSpeechMeta ''blob:speech-1'' (failAllPendingRequests pendingStore) =
      Inr (updateAd
             (\<lparr>index = 1, musicAudioSrc = Some ''error'', nonMusicAudioSrc = Some ''blob:speech-1'',
               transcriptSents = Ready [\<lparr>s_text = ''Compra ahora'', s_start = 0, s_end = 3 / 2\<rparr>,
                                         \<lparr>s_text = ''Solo hoy'', s_start = 3 / 2, s_end = 3\<rparr>],
               englishTranscriptSents = Some [''Buy now'', ''Today only''],
               insights = Error, location = Some ''Nigeria'', status = StatusDone,
               theme = Some ''#FF5733''\<rparr>)
             (failAllPendingRequests pendingStore))"
    unfolding dispatchBlob_def locateTarget_def ty by (simp add: f sp newline_def)
  have h: "handleBlobMessage translatedParse translatedDecode ''blob:speech-1''
             translatedSpeechFrame (failAllPendingRequests pendingStore) =
           dispatchBlob translatedSpeechMeta ''blob:speech-1'' (failAllPendingRequests pendingStore)"
    by (simp add: handleBlobMessage_def decodeFrame_translatedSpeechFrame)
  have "store (deliver translatedParse translatedDecode (ReaderLoad 0 ''blob:speech-1'') ?s) =
      updateAd
             (\<lparr>index = 1, musicAudioSrc = Some ''error'', nonMusicAudioSrc = Some ''blob:speech-1'',
               transcriptSents = Ready [\<lparr>s_text = ''Compra ahora'', s_start = 0, s_end = 3 / 2\<rparr>,
                                         \<lparr>s_text = ''Solo hoy'', s_start = 3 / 2, s_end = 3\<rparr>],
               englishTranscriptSents = Some [''Buy now'', ''Today only''],
               insights = Error, location = Some ''Nigeria'', status = StatusDone,
               theme = Some ''#FF5733''\<rparr>)
             (failAllPendingRequests pendingStore)"
    unfolding deliver_ReaderLoad_store [OF k] rd st nth_Cons_0 h d by simp
  then have after: "nonMusicAudioSrc
     (ads (store (run translatedParse translatedDecode
                    [Open, Message (BlobData translatedSpeechFrame), Close,
                     ReaderLoad 0 ''blob:speech-1'']
                    (generateAds False None pendingStore))) ! 1) = Some ''blob:speech-1''"
    unfolding split_run by (simp add: updateAd_def failAllPendingRequests_pendingStore)
  from c0 c2 before after show ?thesis by simp
qed

text \<open>
  Claim C8, amended. Every transport close event and every transport error event invokes
  \<open>failAllPendingRequests\<close> once, so the number of invocations of a session is the number of
  close and error events it has seen (two for an error followed by a close). After one or
  more such events in a row the item collection is the one a single invocation produces.
  Once the socket has raised close it stays closed, and frames that arrive after close reach
  no listener: they change neither the store nor anything else of the session. A binary frame
  that arrived before close and whose read completes afterwards is still applied to the
  store.
\<close>

theorem close_and_error_fail_pending:
  "failAllPendingCalls (run JSON_parse decode evs s) =
     failAllPendingCalls s + length (filter terminal evs) \<and>
   (evs \<noteq> [] \<and> (\<forall>ev \<in> set evs. terminal ev) \<longrightarrow>
      store (run JSON_parse decode evs s) = failAllPendingRequests (store s)) \<and>
   socketClosed (deliver JSON_parse decode Close s) \<and>
   (socketClosed s \<longrightarrow>
      socketClosed (deliver JSON_parse decode ev s) \<and>
      run JSON_parse decode (map Message ds) s = s) \<and>
   (k < length (reading s) \<longrightarrow>
      store (deliver JSON_parse decode (ReaderLoad k url) s) =
        (case handleBlobMessage JSON_parse decode url (reading s ! k) (store s) of
           Inl e \<Rightarrow> store s
         | Inr st' \<Rightarrow> st'))"
  using run_calls [of JSON_parse decode evs s] run_terminal_store [of evs JSON_parse decode s]
    deliver_Close_closed [of JSON_parse decode s] deliver_keeps_closed [of s JSON_parse decode ev]
    run_messages_closed [of s JSON_parse decode ds]
    deliver_ReaderLoad_store [of k s JSON_parse decode url]
  by blast

text \<open>A transport error followed by the close: two invocations, and the store of a single
  one. After the close, a text frame and a binary frame arrive and change nothing.\<close>

theorem close_and_error_fail_pending_witness:
  "failAllPendingCalls
     (run exampleParse exampleDecode [SocketError, Close] (generateAds False None pendingStore)) = 2 \<and>
   store (run exampleParse exampleDecode [SocketError, Close] (generateAds False None pendingStore)) =
     failAllPendingRequests pendingStore \<and>
   musicAudioSrc (ads (failAllPendingRequests pendingStore) ! 0) = Some ''error'' \<and>
   run translatedParse translatedDecode
     (map Message [TextData stepMissingErrorText, BlobData translatedSpeechFrame])
     (deliver translatedParse translatedDecode Close (generateAds False None pendingStore)) =
   deliver translatedParse translatedDecode Close (generateAds False None pendingStore)"
proof -
  have ne: "[SocketError, Close] \<noteq> []" by simp
  have t: "\<forall>ev \<in> set [SocketError, Close]. terminal ev" by (simp add: terminal_def)
  note r = close_and_error_fail_pending [of exampleParse exampleDecode "[SocketError, Close]"
      "generateAds False None pendingStore"]
  from r have c: "failAllPendingCalls
     (run exampleParse exampleDecode [SocketError, Close] (generateAds False None pendingStore)) = 2"
    by (simp add: terminal_def generateAds_def)
  from r ne t have st: "store (run exampleParse exampleDecode [SocketError, Close]
      (generateAds False None pendingStore)) = failAllPendingRequests pendingStore"
    by (simp add: generateAds_def)
  have m: "musicAudioSrc (ads (failAllPendingRequests pendingStore) ! 0) = Some ''error''"
    by (simp add: failAllPendingRequests_pendingStore)
  let ?closed = "deliver translatedParse translatedDecode Close (generateAds False None pendingStore)"
  note r2 = close_and_error_fail_pending [of translatedParse translatedDecode "[]" ?closed _
      "[TextData stepMissingErrorText, BlobData translatedSpeechFrame]"]
  have cl: "socketClosed ?closed"
    by (simp add: onClose_def invokeFailAllPending_def)
  from r2 cl have q: "run translatedParse translatedDecode
     (map Message [TextData stepMissingErrorText, BlobData translatedSpeechFrame]) ?closed = ?closed"
    by blast
  from c st m q show ?thesis by simp
qed

section \<open>Batching of ready notifications\<close>

lemma flushTimers_append:
  "flushTimers (st\<lparr>timers := timers st @ ts\<rparr>) =
     flushTimers st @ filter (\<lambda>t. callback t = CallProcessBatchedUpdates) ts"
  by (simp add: flushTimers_def)

lemma addToBatch_idle:
  assumes "idle st" "wellTimed st"
  shows "batching [i] now (addToBatch now i ''ready'' st)"
    and "wellTimed (addToBatch now i ''ready'' st)"
    and "notifications (addToBatch now i ''ready'' st) = notifications st"
    and "activeTrackIndex (addToBatch now i ''ready'' st) = activeTrackIndex st"
  using assms
  by (auto simp: idle_def wellTimed_def batching_def addToBatch_def setTimeout_def flushTimers_def
      list_all_iff)

lemma find_ready_batch:
  "find (\<lambda>b. b_type b = ''ready'') [\<lparr>b_type = ''ready'', trackIndexes = ixs, b_timestamp = t\<rparr>]
     = Some \<lparr>b_type = ''ready'', trackIndexes = ixs, b_timestamp = t\<rparr>"
  by simp

lemma addToBatch_batching:
  assumes "batching ixs t st" "wellTimed st"
  shows "batching (ixs @ [i]) now (addToBatch now i ''ready'' st)"
    and "wellTimed (addToBatch now i ''ready'' st)"
    and "notifications (addToBatch now i ''ready'' st) = notifications st"
    and "activeTrackIndex (addToBatch now i ''ready'' st) = activeTrackIndex st"
proof -
  from assms(1) obtain h where
    b: "batchedUpdates st = [\<lparr>b_type = ''ready'', trackIndexes = ixs, b_timestamp = t\<rparr>]" and
    h: "batchTimer st = Some h" and
    f: "flushTimers st = [\<lparr>handle = h, fireAt = t + 5000, callback = CallProcessBatchedUpdates\<rparr>]"
    by (auto simp: batching_def split: option.splits)
  have cleared: "filter (\<lambda>x. handle x \<noteq> h \<and> callback x = CallProcessBatchedUpdates) (timers st) = []"
  proof -
    have "filter (\<lambda>x. handle x \<noteq> h \<and> callback x = CallProcessBatchedUpdates) (timers st)
        = filter (\<lambda>x. handle x \<noteq> h) (flushTimers st)"
      unfolding flushTimers_def filter_filter by (rule filter_cong) auto
    then show ?thesis by (simp add: f)
  qed
  have st': "addToBatch now i ''ready'' st =
      st\<lparr>batchedUpdates := [\<lparr>b_type = ''ready'', trackIndexes = ixs @ [i], b_timestamp = now\<rparr>],
         timers := filter (\<lambda>t. handle t \<noteq> h) (timers st) @
                   [\<lparr>handle = nextHandle st, fireAt = now + 5000, callback = CallProcessBatchedUpdates\<rparr>],
         nextHandle := Suc (nextHandle st),
         batchTimer := Some (nextHandle st)\<rparr>"
    by (simp add: addToBatch_def b h setTimeout_def clearTimeout_def)
  show "batching (ixs @ [i]) now (addToBatch now i ''ready'' st)"
    unfolding st' by (simp add: batching_def flushTimers_def cleared)
  show "wellTimed (addToBatch now i ''ready'' st)"
    unfolding st' using assms(2)
    by (auto simp: wellTimed_def list_all_iff distinct_map_filter)
  show "notifications (addToBatch now i ''ready'' st) = notifications st"
    unfolding st' by simp
  show "activeTrackIndex (addToBatch now i ''ready'' st) = activeTrackIndex st"
    unfolding st' by simp
qed

lemma handleTrackUpdate_ready_unfocused:
  "activeTrackIndex st \<noteq> Some i \<Longrightarrow>
     handleTrackUpdate now rnd i ''ready'' st = addToBatch now i ''ready'' st"
  by (simp add: handleTrackUpdate_def)

text \<open>Further ready events for unfocused tracks keep the single batch and the single timer.\<close>

lemma readyEvents_batching:
  assumes "batching ixs t st" "wellTimed st"
    and "\<forall>(now, rnd, i) \<in> set evs. activeTrackIndex st \<noteq> Some i"
  shows "batching (ixs @ map (\<lambda>(now, rnd, i). i) evs) (last (t # map fst evs)) (readyEvents evs st) \<and>
         wellTimed (readyEvents evs st) \<and>
         notifications (readyEvents evs st) = notifications st \<and>
         activeTrackIndex (readyEvents evs st) = activeTrackIndex st"
  using assms unfolding readyEvents_def
proof (induction evs arbitrary: ixs t st)
  case Nil
  then show ?case by simp
next
  case (Cons ev evs)
  obtain now rnd i where ev: "ev = (now, rnd, i)" by (cases ev) auto
  let ?st = "addToBatch now i ''ready'' st"
  from Cons.prems(3) ev have unf: "activeTrackIndex st \<noteq> Some i" by simp
  have step: "handleTrackUpdate now rnd i ''ready'' st = ?st"
    using unf by (rule handleTrackUpdate_ready_unfocused)
  note ab = addToBatch_batching [OF Cons.prems(1,2), where i = i and now = now]
  have rest: "\<forall>(now, rnd, i) \<in> set evs. activeTrackIndex ?st \<noteq> Some i"
    using Cons.prems(3) ab(4) by auto
  from Cons.IH [OF ab(1) ab(2) rest] ab(3,4) show ?case
    by (simp add: ev step)
qed

lemma readyEvents_idle:
  assumes "idle st" "wellTimed st" "evs \<noteq> []"
    and "\<forall>(now, rnd, i) \<in> set evs. activeTrackIndex st \<noteq> Some i"
  shows "batching (map (\<lambda>(now, rnd, i). i) evs) (fst (last evs)) (readyEvents evs st) \<and>
         wellTimed (readyEvents evs st) \<and>
         notifications (readyEvents evs st) = notifications st \<and>
         activeTrackIndex (readyEvents evs st) = activeTrackIndex st"
proof -
  from assms(3) obtain ev evs' where evs: "evs = ev # evs'" by (cases evs) auto
  obtain now rnd i where ev: "ev = (now, rnd, i)" by (cases ev) auto
  let ?st = "addToBatch now i ''ready'' st"
  from assms(4) evs ev have unf: "activeTrackIndex st \<noteq> Some i" by simp
  have step: "handleTrackUpdate now rnd i ''ready'' st = ?st"
    using unf by (rule handleTrackUpdate_ready_unfocused)
  note ab = addToBatch_idle [OF assms(1,2), where i = i and now = now]
  have rest: "\<forall>(now, rnd, i) \<in> set evs'. activeTrackIndex ?st \<noteq> Some i"
    using assms(4) evs ab(4) by auto
  have run: "readyEvents evs st = readyEvents evs' ?st"
    by (simp add: readyEvents_def evs ev step)
  have l: "last (now # map fst evs') = fst (last evs)"
    by (cases "evs' = []") (simp_all add: evs ev last_map)
  have m: "map (\<lambda>(now, rnd, i). i) evs = [i] @ map (\<lambda>(now, rnd, i). i) evs'"
    by (simp add: evs ev)
  note rb = readyEvents_batching [OF ab(1) ab(2) rest, unfolded l]
  show ?thesis
    unfolding run m using rb ab(3,4) by simp
qed

text \<open>Handles are handed out once, so the stored handle finds the flush timer.\<close>

lemma find_by_handle:
  "distinct (map handle ts) \<Longrightarrow> x \<in> set ts \<Longrightarrow> find (\<lambda>y. handle y = handle x) ts = Some x"
  by (induction ts) (auto simp: image_iff)

lemma createBatchNotification_ready:
  "addNotification now rnd
     (createBatchNotification \<lparr>b_type = ''ready'', trackIndexes = ixs, b_timestamp = t\<rparr>) st =
   st\<lparr>notifications := notifications st @ [readyBatchNotification ixs now rnd],
      timers := timers st @ [\<lparr>handle = nextHandle st, fireAt = now + 4000,
                 callback = CallRemoveNotification (''notif_'' @ showNat now @ ''_'' @ rnd)\<rparr>],
      nextHandle := Suc (nextHandle st)\<rparr>"
  by (simp add: addNotification_def createBatchNotification_def readyBatchNotification_def
      setTimeout_def Let_def not_le)

lemma fireTimer_flush:
  assumes "batching ixs t st" "wellTimed st" "ixs \<noteq> []" "batchTimer st = Some h"
  shows "now < t + 5000 \<Longrightarrow> fireTimer h now rnds st = st"
    and "t + 5000 \<le> now \<Longrightarrow>
           notifications (fireTimer h now rnds st) =
             notifications st @ [readyBatchNotification ixs now (rnds 0)] \<and>
           idle (fireTimer h now rnds st) \<and> wellTimed (fireTimer h now rnds st)"
proof -
  let ?ft = "\<lparr>handle = h, fireAt = t + 5000, callback = CallProcessBatchedUpdates\<rparr>"
  from assms(1,4) have
    b: "batchedUpdates st = [\<lparr>b_type = ''ready'', trackIndexes = ixs, b_timestamp = t\<rparr>]" and
    f: "flushTimers st = [?ft]"
    by (auto simp: batching_def)
  have "?ft \<in> set (flushTimers st)" by (simp add: f)
  then have mem: "?ft \<in> set (timers st)" by (simp add: flushTimers_def)
  from assms(2) have d: "distinct (map handle (timers st))" by (simp add: wellTimed_def)
  have found: "find (\<lambda>y. handle y = h) (timers st) = Some ?ft"
    using find_by_handle [OF d mem] by simp
  show "now < t + 5000 \<Longrightarrow> fireTimer h now rnds st = st"
    by (simp add: fireTimer_def found)
  have cleared: "filter (\<lambda>x. handle x \<noteq> h \<and> callback x = CallProcessBatchedUpdates) (timers st) = []"
  proof -
    have "filter (\<lambda>x. handle x \<noteq> h \<and> callback x = CallProcessBatchedUpdates) (timers st)
        = filter (\<lambda>x. handle x \<noteq> h) (flushTimers st)"
      unfolding flushTimers_def filter_filter by (rule filter_cong) auto
    then show ?thesis by (simp add: f)
  qed
  assume due: "t + 5000 \<le> now"
  let ?st1 = "st\<lparr>timers := filter (\<lambda>t'. handle t' \<noteq> h) (timers st)\<rparr>"
  have fire: "fireTimer h now rnds st = processBatchedUpdates now rnds ?st1"
    using due by (simp add: fireTimer_def found)
  have flush: "processBatchedUpdates now rnds ?st1 =
      ?st1\<lparr>notifications := notifications st @ [readyBatchNotification ixs now (rnds 0)],
           timers := filter (\<lambda>t'. handle t' \<noteq> h) (timers st) @
                     [\<lparr>handle = nextHandle st, fireAt = now + 4000,
                       callback = CallRemoveNotification (''notif_'' @ showNat now @ ''_'' @ rnds 0)\<rparr>],
           nextHandle := Suc (nextHandle st),
           batchedUpdates := [], batchTimer := None\<rparr>"
    using assms(3) by (simp add: processBatchedUpdates_def b createBatchNotification_ready)
  have wt: "wellTimed (fireTimer h now rnds st)"
    unfolding fire flush using assms(2)
    by (auto simp: wellTimed_def list_all_iff distinct_map_filter)
  have "idle (fireTimer h now rnds st)"
    unfolding fire flush by (simp add: idle_def flushTimers_def cleared)
  moreover have "notifications (fireTimer h now rnds st) =
      notifications st @ [readyBatchNotification ixs now (rnds 0)]"
    unfolding fire flush by simp
  ultimately show "notifications (fireTimer h now rnds st) =
             notifications st @ [readyBatchNotification ixs now (rnds 0)] \<and>
           idle (fireTimer h now rnds st) \<and> wellTimed (fireTimer h now rnds st)"
    using wt by simp
qed

text \<open>
  Claim C7. Start from a store in which no batch is pending, and let any non-empty sequence
  of ready events for tracks that are not the active one arrive with no flush in between.
  No notification is added by the events; all their indexes stand, in order of arrival, in
  the single ready batch; and exactly one flush timer is scheduled, five seconds after the last
  event (every earlier timer has been cleared). Since this holds for every such sequence it
  holds after each event of it: each event appends its index and moves the timer. The timer
  does nothing before it is due. When it runs, exactly one notification of type \<open>batch\<close> is
  appended, whose message is \<open>Tracks\<close> followed by the comma-joined 1-based numbers for at
  most three indexes and \<open>N more tracks completed\<close> otherwise; the batch list is then empty
  and no flush is scheduled.
\<close>

theorem ready_events_single_batch:
  assumes "idle st" "wellTimed st" "evs \<noteq> []"
    and "\<forall>(now, rnd, i) \<in> set evs. activeTrackIndex st \<noteq> Some i"
  shows "let ixs = map (\<lambda>(now, rnd, i). i) evs; t = fst (last evs); st' = readyEvents evs st
         in batchedUpdates st' = [\<lparr>b_type = ''ready'', trackIndexes = ixs, b_timestamp = t\<rparr>] \<and>
            notifications st' = notifications st \<and>
            (case batchTimer st' of
               None \<Rightarrow> False
             | Some h \<Rightarrow>
                 flushTimers st' =
                   [\<lparr>handle = h, fireAt = t + 5000, callback = CallProcessBatchedUpdates\<rparr>] \<and>
                 (\<forall>now rnds. now < t + 5000 \<longrightarrow> fireTimer h now rnds st' = st') \<and>
                 (\<forall>now rnds. t + 5000 \<le> now \<longrightarrow>
                    notifications (fireTimer h now rnds st') =
                      notifications st @ [readyBatchNotification ixs now (rnds 0)] \<and>
                    batchedUpdates (fireTimer h now rnds st') = [] \<and>
                    batchTimer (fireTimer h now rnds st') = None \<and>
                    flushTimers (fireTimer h now rnds st') = []))"
proof -
  let ?ixs = "map (\<lambda>(now, rnd, i). i) evs"
  let ?t = "fst (last evs)"
  let ?st' = "readyEvents evs st"
  from readyEvents_idle [OF assms] have
    bt: "batching ?ixs ?t ?st'" and wt: "wellTimed ?st'" and
    ns: "notifications ?st' = notifications st"
    by simp_all
  from bt obtain h where h: "batchTimer ?st' = Some h"
    by (auto simp: batching_def split: option.splits)
  from bt h have
    b: "batchedUpdates ?st' = [\<lparr>b_type = ''ready'', trackIndexes = ?ixs, b_timestamp = ?t\<rparr>]" and
    f: "flushTimers ?st' = [\<lparr>handle = h, fireAt = ?t + 5000, callback = CallProcessBatchedUpdates\<rparr>]"
    by (auto simp: batching_def)
  have ne: "?ixs \<noteq> []" using assms(3) by simp
  note ff = fireTimer_flush [OF bt wt ne h]
  have early: "\<forall>now rnds. now < ?t + 5000 \<longrightarrow> fireTimer h now rnds ?st' = ?st'"
    using ff(1) by blast
  have due: "\<forall>now rnds. ?t + 5000 \<le> now \<longrightarrow>
                    notifications (fireTimer h now rnds ?st') =
                      notifications st @ [readyBatchNotification ?ixs now (rnds 0)] \<and>
                    batchedUpdates (fireTimer h now rnds ?st') = [] \<and>
                    batchTimer (fireTimer h now rnds ?st') = None \<and>
                    flushTimers (fireTimer h now rnds ?st') = []"
    using ff(2) by (auto simp: idle_def ns)
  show ?thesis
    unfolding Let_def using b ns f early due by (simp add: h)
qed

text \<open>
  The instance of the specification: ready events for the unfocused tracks 0, 1 and 2 within
  one second give, when the timer runs, one notification listing \<open>Tracks 1, 2, 3\<close>. A fourth
  event turns the message into the summary.
\<close>

lemmas notification_eval =
  readyEvents_def handleTrackUpdate_def addToBatch_def setTimeout_def clearTimeout_def

theorem ready_events_single_batch_witness:
  "notifications (fireTimer 3 6900 (\<lambda>k. ''q7d2m4x8z'')
                   (readyEvents threeReadyEvents initialNotificationState)) =
     [\<lparr>n_type = ''batch'',
       n_title = [CHR 0xF0, CHR 0x9F, CHR 0x8E, CHR 0x89] @ '' 3 tracks ready!'',
       n_message = ''Tracks 1, 2, 3 ready to play'',
       n_trackIndex = None, n_duration = Some 4000,
       n_id = ''notif_6900_q7d2m4x8z'', n_timestamp = 6900\<rparr>] \<and>
   map n_message (notifications (fireTimer 4 7500 (\<lambda>k. ''q7d2m4x8z'')
                   (readyEvents fourReadyEvents initialNotificationState))) =
     [''4 more tracks completed'']"
proof -
  have i: "idle initialNotificationState"
    by (simp add: idle_def initialNotificationState_def flushTimers_def)
  have w: "wellTimed initialNotificationState"
    by (simp add: wellTimed_def initialNotificationState_def)
  have n: "notifications initialNotificationState = []"
    by (simp add: initialNotificationState_def)
  have ne3: "threeReadyEvents \<noteq> []" and ne4: "fourReadyEvents \<noteq> []"
    by (simp_all add: threeReadyEvents_def fourReadyEvents_def)
  have u3: "\<forall>(now, rnd, i) \<in> set threeReadyEvents. activeTrackIndex initialNotificationState \<noteq> Some i"
    and u4: "\<forall>(now, rnd, i) \<in> set fourReadyEvents. activeTrackIndex initialNotificationState \<noteq> Some i"
    by (simp_all add: initialNotificationState_def)
  have h3: "batchTimer (readyEvents threeReadyEvents initialNotificationState) = Some 3"
    by (simp add: threeReadyEvents_def initialNotificationState_def notification_eval)
  have h4: "batchTimer (readyEvents fourReadyEvents initialNotificationState) = Some 4"
    by (simp add: fourReadyEvents_def threeReadyEvents_def initialNotificationState_def
        notification_eval)
  have m3: "map (\<lambda>(now, rnd, i). i) threeReadyEvents = [0, 1, 2]" "fst (last threeReadyEvents) = 1900"
    by (simp_all add: threeReadyEvents_def)
  have m4: "map (\<lambda>(now, rnd, i). i) fourReadyEvents = [0, 1, 2, 3]" "fst (last fourReadyEvents) = 2500"
    by (simp_all add: fourReadyEvents_def threeReadyEvents_def)
  have r3: "readyBatchNotification [0, 1, 2] 6900 ''q7d2m4x8z'' =
     \<lparr>n_type = ''batch'',
       n_title = [CHR 0xF0, CHR 0x9F, CHR 0x8E, CHR 0x89] @ '' 3 tracks ready!'',
       n_message = ''Tracks 1, 2, 3 ready to play'',
       n_trackIndex = None, n_duration = Some 4000,
       n_id = ''notif_6900_q7d2m4x8z'', n_timestamp = 6900\<rparr>"
    by (simp add: readyBatchNotification_def showNat.simps digit_def)
  have r4: "n_message (readyBatchNotification [0, 1, 2, 3] 7500 ''q7d2m4x8z'') =
      ''4 more tracks completed''"
    by (simp add: readyBatchNotification_def showNat.simps digit_def)
  from ready_events_single_batch [OF i w ne3 u3]
  have a3: "notifications (fireTimer 3 6900 (\<lambda>k. ''q7d2m4x8z'')
                   (readyEvents threeReadyEvents initialNotificationState)) =
        [readyBatchNotification [0, 1, 2] 6900 ''q7d2m4x8z'']"
    unfolding Let_def m3 h3 n by simp
  from ready_events_single_batch [OF i w ne4 u4]
  have a4: "notifications (fireTimer 4 7500 (\<lambda>k. ''q7d2m4x8z'')
                   (readyEvents fourReadyEvents initialNotificationState)) =
        [readyBatchNotification [0, 1, 2, 3] 7500 ''q7d2m4x8z'']"
    unfolding Let_def m4 h4 n by simp
  show ?thesis
    unfolding a3 a4 r3 by (simp only: list.map r4 simp_thms)
qed

section \<open>Creating the collection\<close>

text \<open>The loop of \<open>populateAds\<close> appends one item per element, in order, to what the
  collection holds.\<close>

lemma fold_appendAd:
  "fold (\<lambda>(i, country) s. appendAd (f i country) s) xs st =
   st\<lparr>ads := ads st @ map (\<lambda>(i, country). f i country) xs\<rparr>"
  by (induction xs arbitrary: st) (auto simp: appendAd_def setAds_def)

lemma populateAds_ads:
  "ads (populateAds multiply rnd data st) =
   ads st @ map (\<lambda>(i, country). newAd multiply (rnd i) i country) (enumerate 0 data)"
  by (simp add: populateAds_def fold_appendAd)

lemma populateAds_nth:
  assumes "k < length data"
  shows "ads (populateAds multiply rnd data st) ! (length (ads st) + k) =
           newAd multiply (rnd k) k (data ! k)"
  using assms by (simp add: populateAds_ads nth_append nth_enumerate_eq)

text \<open>A product in \<open>[0, 12)\<close> picks a colour of the palette.\<close>

lemma getRandomVibrantColor_in_palette:
  assumes "0 \<le> multiply r 12" "multiply r 12 < 12"
  shows "\<exists>c \<in> set vibrantColors. getRandomVibrantColor multiply r = Some c"
proof -
  let ?n = "length vibrantColors"
  let ?i = "\<lfloor>multiply r (of_nat ?n)\<rfloor>"
  have n: "?n = 12" by (simp add: vibrantColors_def)
  have nonneg: "0 \<le> ?i" using assms(1) n by simp
  have "multiply r (of_nat ?n) < of_nat ?n" using assms(2) n by simp
  then have "?i < int ?n" by (simp add: floor_less_iff)
  with nonneg have lt: "nat ?i < ?n" by linarith
  then have "vibrantColors ! nat ?i \<in> set vibrantColors" by (rule nth_mem)
  moreover have "getRandomVibrantColor multiply r = Some (vibrantColors ! nat ?i)"
    using nonneg lt by (simp add: getRandomVibrantColor_def Let_def)
  ultimately show ?thesis by blast
qed

text \<open>On an empty collection the result is one item per location, with the indexes from 0, the
  four progressive fields \<open>pending\<close>, no English transcript, status \<open>pending\<close>, and the drawn
  theme.\<close>

lemma populateAds_empty:
  assumes "ads st = []" "k < length data"
  shows "length (ads (populateAds multiply rnd data st)) = length data"
    and "ads (populateAds multiply rnd data st) ! k =
           \<lparr>index = of_nat k, musicAudioSrc = Some ''pending'', nonMusicAudioSrc = Some ''pending'',
            transcriptSents = Pending, englishTranscriptSents = None, insights = Pending,
            location = Some (name (data ! k)), status = StatusPending,
            theme = getRandomVibrantColor multiply (rnd k)\<rparr>"
  using populateAds_nth [OF assms(2), of multiply rnd st] assms(1)
  by (simp_all add: populateAds_ads newAd_def)

lemma firstSession_ads:
  "ads firstSession =
     [\<lparr>index = 0, musicAudioSrc = Some ''pending'', nonMusicAudioSrc = Some ''pending'',
       transcriptSents = Pending, englishTranscriptSents = None, insights = Pending,
       location = Some ''Nigeria'', status = StatusPending, theme = Some ''#9B59B6''\<rparr>,
      \<lparr>index = 1, musicAudioSrc = Some ''pending'', nonMusicAudioSrc = Some ''pending'',
       transcriptSents = Pending, englishTranscriptSents = None, insights = Pending,
       location = Some ''Japan'', status = StatusPending, theme = Some ''#F39C12''\<rparr>]"
  by (simp add: firstSession_def populateAds_ads emptyStore_def exampleLocations_def
      exampleDraws_def exampleTimes_def newAd_def getRandomVibrantColor_def vibrantColors_def
      enumerate_eq_zip upt_rec)

lemma secondSession_ads:
  "ads secondSession = ads firstSession @
     [\<lparr>index = 0, musicAudioSrc = Some ''pending'', nonMusicAudioSrc = Some ''pending'',
       transcriptSents = Pending, englishTranscriptSents = None, insights = Pending,
       location = Some ''Brazil'', status = StatusPending, theme = Some ''#9B59B6''\<rparr>,
      \<lparr>index = 1, musicAudioSrc = Some ''pending'', nonMusicAudioSrc = Some ''pending'',
       transcriptSents = Pending, englishTranscriptSents = None, insights = Pending,
       location = Some ''India'', status = StatusPending, theme = Some ''#F39C12''\<rparr>]"
  by (simp add: secondSession_def populateAds_ads secondLocations_def
      exampleDraws_def exampleTimes_def newAd_def getRandomVibrantColor_def vibrantColors_def
      enumerate_eq_zip upt_rec)

text \<open>
  Claim C4. The claim is that \<open>populateAds\<close> replaces the whole collection, so that the result
  holds exactly one item per requested location, indexed from 0. The code meets it on an empty
  collection (the first session: two locations, two items, indexes 0 and 1, every field as
  claimed) and breaks it on the second call: the two items of the first session stay and the
  new ones are appended with indexes that start at 0 again, so the collection has four items
  for two locations and the indexes 0, 1, 0, 1. The store routes by index: the \<open>insight\<close>
  frame for index 0 of the second session lands on the item for Nigeria of the first session,
  and the write-back then puts that item in place of the new item for Brazil.
\<close>

theorem populateAds_second_call:
  "length exampleLocations = 2 \<and>
   map index (ads firstSession) = [0, 1] \<and>
   map location (ads firstSession) = [Some ''Nigeria'', Some ''Japan''] \<and>
   map musicAudioSrc (ads firstSession) = [Some ''pending'', Some ''pending''] \<and>
   map nonMusicAudioSrc (ads firstSession) = [Some ''pending'', Some ''pending''] \<and>
   map transcriptSents (ads firstSession) = [Pending, Pending] \<and>
   map insights (ads firstSession) = [Pending, Pending] \<and>
   map englishTranscriptSents (ads firstSession) = [None, None] \<and>
   map status (ads firstSession) = [StatusPending, StatusPending] \<and>
   map theme (ads firstSession) = [Some ''#9B59B6'', Some ''#F39C12''] \<and>
   length secondLocations = 2 \<and>
   length (ads secondSession) = 4 \<and>
   map index (ads secondSession) = [0, 1, 0, 1] \<and>
   map location (ads secondSession) =
     [Some ''Nigeria'', Some ''Japan'', Some ''Brazil'', Some ''India''] \<and>
   (case handleJsonMessage insightFrame secondSession of
      Inl e \<Rightarrow> []
    | Inr st \<Rightarrow> map (\<lambda>ad. (location ad, insights ad)) (ads st)) =
     [(Some ''Nigeria'', Ready [\<lparr>i_insight = ''now'', i_explanation = ''urgency''\<rparr>]),
      (Some ''Japan'', Pending),
      (Some ''Nigeria'', Ready [\<lparr>i_insight = ''now'', i_explanation = ''urgency''\<rparr>]),
      (Some ''India'', Pending)]"
proof -
  have rp: "ResponsePayload insightFrame =
      Some \<lparr>rp_type = ''insight'', rp_message = None, rp_index = Some 0, rp_step = None,
            rp_transcript = None, rp_translations = None, rp_alignments = None,
            rp_insights = Some [\<lparr>i_insight = ''now'', i_explanation = ''urgency''\<rparr>]\<rparr>"
    by (simp add: insightFrame_def schema_defs)
  have ev: "jsonEvent insightFrame = None"
    by (simp add: jsonEvent_def insightFrame_def getProp_def)
  have routed: "(case handleJsonMessage insightFrame secondSession of
      Inl e \<Rightarrow> []
    | Inr st \<Rightarrow> map (\<lambda>ad. (location ad, insights ad)) (ads st)) =
     [(Some ''Nigeria'', Ready [\<lparr>i_insight = ''now'', i_explanation = ''urgency''\<rparr>]),
      (Some ''Japan'', Pending),
      (Some ''Nigeria'', Ready [\<lparr>i_insight = ''now'', i_explanation = ''urgency''\<rparr>]),
      (Some ''India'', Pending)]"
    by (simp add: handleJsonMessage_def rp ev locateTarget_def findAd_def secondSession_ads
        firstSession_ads InsightsResponsePayload_def updateAd_def)
  show ?thesis
    using routed
    by (simp add: secondSession_ads firstSession_ads exampleLocations_def secondLocations_def)
qed

end
